theory Spec2Isabelle
  imports Main "HOL-Library.Word" "HOL-Library.Sublist"
begin

unbundle bit_operations_syntax

section \<open>Machine types and kernel constants\<close>

text \<open>
  The two drivers, \<^verbatim>\<open>drivers/iio/dac/ad9739a.c\<close> (the frontend, a DAC on SPI) and
  \<^verbatim>\<open>drivers/iio/dac/adi-axi-dac.c\<close> (the backend, an FPGA core on MMIO), are embedded
  as functions over an explicit world. C's \<^verbatim>\<open>unsigned int\<close> is a 32-bit word,
  \<^verbatim>\<open>unsigned long\<close> a 64-bit word, \<^verbatim>\<open>int\<close> return codes are integers.
\<close>

type_synonym u32 = "32 word"
type_synonym ulong = "64 word"

text \<open>
  Modelled from the spec: the errno constants of \<^verbatim>\<open>linux/errno.h\<close>, which is not among
  the sources. The spec calls \<^verbatim>\<open>-EINVAL\<close> InvalidArgument / InvalidConfiguration,
  \<^verbatim>\<open>-ENODEV\<close> UnrecognizedDevice / IncompatibleCoreVersion; \<^verbatim>\<open>-EIO\<close> is a BusError.
\<close>

definition EINVAL :: int where "EINVAL = 22"
definition ENODEV :: int where "ENODEV = 19"
definition ENOMEM :: int where "ENOMEM = 12"
definition EIO :: int where "EIO = 5"

text \<open>
  Modelled from the spec: the macros \<^verbatim>\<open>MEGA\<close> (\<^verbatim>\<open>linux/units.h\<close>), \<^verbatim>\<open>BIT\<close>,
  \<^verbatim>\<open>GENMASK\<close> (\<^verbatim>\<open>linux/bits.h\<close>), \<^verbatim>\<open>FIELD_PREP\<close> (\<^verbatim>\<open>linux/bitfield.h\<close>) and
  \<^verbatim>\<open>in_range\<close> (\<^verbatim>\<open>linux/minmax.h\<close>: the unsigned difference \<^verbatim>\<open>val - start\<close> is
  below \<^verbatim>\<open>len\<close>). None of the headers is among the sources.
\<close>

definition MEGA :: ulong where "MEGA = 1000000"

definition BIT :: "nat \<Rightarrow> u32" where
  "BIT n = push_bit n 1"

definition GENMASK :: "nat \<Rightarrow> nat \<Rightarrow> u32" where
  "GENMASK h l = push_bit l (mask (h + 1 - l))"

definition bf_shf :: "u32 \<Rightarrow> nat" where
  "bf_shf m = length (takeWhile (\<lambda>n. \<not> bit m n) [0..<32])"

definition FIELD_PREP :: "u32 \<Rightarrow> u32 \<Rightarrow> u32" where
  "FIELD_PREP m v = push_bit (bf_shf m) v AND m"

definition in_range :: "ulong \<Rightarrow> ulong \<Rightarrow> ulong \<Rightarrow> bool" where
  "in_range val start len = (val - start < len)"

section \<open>The world outside the drivers\<close>

text \<open>
  Every service the drivers call (allocation, clocks, GPIO, the register bus, the
  backend core, logging, delays) is a collaborator. A call is logged in the trace, and
  what it returns is chosen by the environment from the calls made so far and the call
  itself, so a theorem over all environments covers every failure the collaborators
  can report.
\<close>

datatype gpiod_flags = GPIOD_OUT_HIGH

datatype call =
    Devm_iio_device_alloc
  | Devm_kzalloc
  | Device_get_match_data
  | Devm_clk_get_enabled
  | Clk_get_rate
  | Devm_platform_ioremap_resource
  | Devm_regmap_init_spi
  | Devm_regmap_init_mmio
  | Regmap_read u32
  | Regmap_write u32 u32
  | Regmap_update_bits u32 u32 u32
  | Regmap_set_bits u32 u32
  | Regmap_clear_bits u32 u32
  | Regmap_multi_reg_write "(u32 \<times> u32) list"
  | Regmap_read_poll_timeout u32 u32 nat nat
  | Devm_gpiod_get_optional string gpiod_flags
  | Gpiod_set_value_cansleep int
  | Ndelay nat
  | Fsleep nat
  | Dev_err_probe int
  | Dev_err
  | Dev_info
  | Devm_iio_backend_get
  | Devm_iio_backend_request_buffer
  | Devm_iio_backend_register
  | Devm_iio_device_register
  | Device_property_read_string string
  | Iio_dmaengine_buffer_alloc string
  | Iio_buffer_set_dir_out
  | Iio_device_attach_buffer
  | Iio_dmaengine_buffer_free

text \<open>
  A reply: the integer result (for a pointer-returning service, non-zero means
  \<^verbatim>\<open>IS_ERR\<close> and is the \<^verbatim>\<open>PTR_ERR\<close> value), the value read or pointed to,
  whether a pointer result is \<^verbatim>\<open>NULL\<close>, and the string a property lookup stores.
\<close>

record reply =
  ret :: int
  rval :: nat
  rnull :: bool
  rstr :: string

type_synonym env = "call list \<Rightarrow> call \<Rightarrow> reply"

text \<open>
  The world: the calls made so far, the register file as the drivers last wrote it
  (a write the bus rejects stores nothing), and \<^verbatim>\<open>indio_dev->modes\<close>.
\<close>

record world =
  trace :: "call list"
  regs :: "u32 \<Rightarrow> u32"
  modes :: u32

definition emit :: "call \<Rightarrow> world \<Rightarrow> world" where
  "emit c w = w\<lparr>trace := trace w @ [c]\<rparr>"

definition ext :: "env \<Rightarrow> call \<Rightarrow> world \<Rightarrow> reply \<times> world" where
  "ext env c w = (env (trace w) c, emit c w)"

subsection \<open>The register bus (regmap)\<close>

text \<open>
  A bus service asks the environment first. What the environment answers is the result;
  a read takes its value from the answer (the hardware decides it), and a write, a field
  update or a multi-register write that is answered 0 is stored in the register file.
  The poll is one service: its answer says whether the condition was met in time.
\<close>

definition regmap_read :: "env \<Rightarrow> u32 \<Rightarrow> world \<Rightarrow> int \<times> u32 \<times> world" where
  "regmap_read env reg w =
     (let (r, w1) = ext env (Regmap_read reg) w in (ret r, of_nat (rval r), w1))"

definition regmap_write :: "env \<Rightarrow> u32 \<Rightarrow> u32 \<Rightarrow> world \<Rightarrow> int \<times> world" where
  "regmap_write env reg v w =
     (let (r, w1) = ext env (Regmap_write reg v) w in
      if ret r \<noteq> 0 then (ret r, w1)
      else (0, w1\<lparr>regs := (regs w1)(reg := v)\<rparr>))"

definition regmap_update_bits :: "env \<Rightarrow> u32 \<Rightarrow> u32 \<Rightarrow> u32 \<Rightarrow> world \<Rightarrow> int \<times> world" where
  "regmap_update_bits env reg m v w =
     (let (r, w1) = ext env (Regmap_update_bits reg m v) w in
      if ret r \<noteq> 0 then (ret r, w1)
      else (0, w1\<lparr>regs := (regs w1)(reg := (regs w1 reg AND NOT m) OR (v AND m))\<rparr>))"

definition regmap_set_bits :: "env \<Rightarrow> u32 \<Rightarrow> u32 \<Rightarrow> world \<Rightarrow> int \<times> world" where
  "regmap_set_bits env reg bits w =
     (let (r, w1) = ext env (Regmap_set_bits reg bits) w in
      if ret r \<noteq> 0 then (ret r, w1)
      else (0, w1\<lparr>regs := (regs w1)(reg := regs w1 reg OR bits)\<rparr>))"

definition regmap_clear_bits :: "env \<Rightarrow> u32 \<Rightarrow> u32 \<Rightarrow> world \<Rightarrow> int \<times> world" where
  "regmap_clear_bits env reg bits w =
     (let (r, w1) = ext env (Regmap_clear_bits reg bits) w in
      if ret r \<noteq> 0 then (ret r, w1)
      else (0, w1\<lparr>regs := (regs w1)(reg := regs w1 reg AND NOT bits)\<rparr>))"

definition regmap_multi_reg_write :: "env \<Rightarrow> (u32 \<times> u32) list \<Rightarrow> world \<Rightarrow> int \<times> world" where
  "regmap_multi_reg_write env rs w =
     (let (r, w1) = ext env (Regmap_multi_reg_write rs) w in
      if ret r \<noteq> 0 then (ret r, w1)
      else (0, w1\<lparr>regs := fold (\<lambda>(reg, v) f. f(reg := v)) rs (regs w1)\<rparr>))"

definition regmap_read_poll_timeout :: "env \<Rightarrow> u32 \<Rightarrow> u32 \<Rightarrow> nat \<Rightarrow> nat \<Rightarrow> world \<Rightarrow> int \<times> world" where
  "regmap_read_poll_timeout env reg m sleep_us timeout_us w =
     (let (r, w1) = ext env (Regmap_read_poll_timeout reg m sleep_us timeout_us) w in (ret r, w1))"

text \<open>
  The members of \<^verbatim>\<open>struct regmap_config\<close> the two drivers set. A member the initialiser
  does not name is zero, or a null pointer (\<open>None\<close>).
\<close>

record regmap_config =
  reg_bits :: nat
  val_bits :: nat
  reg_stride :: nat
  max_register :: u32
  readable_reg :: "(u32 \<Rightarrow> bool) option"
  writeable_reg :: "(u32 \<Rightarrow> bool) option"

text \<open>Delays and diagnostics are logged and have no answer.\<close>

definition ndelay :: "nat \<Rightarrow> world \<Rightarrow> world" where
  "ndelay ns w = emit (Ndelay ns) w"

definition fsleep :: "nat \<Rightarrow> world \<Rightarrow> world" where
  "fsleep us w = emit (Fsleep us) w"

definition dev_err_probe :: "int \<Rightarrow> world \<Rightarrow> int \<times> world" where
  "dev_err_probe err w = (err, emit (Dev_err_probe err) w)"

section \<open>The frontend: ad9739a.c\<close>

definition AD9739A_REG_MODE :: u32 where "AD9739A_REG_MODE = 0"
definition AD9739A_RESET_MASK :: u32 where "AD9739A_RESET_MASK = BIT 5"
definition AD9739A_REG_LVDS_REC_CNT4 :: u32 where "AD9739A_REG_LVDS_REC_CNT4 = 0x13"
definition AD9739A_FINE_DEL_SKW_MASK :: u32 where "AD9739A_FINE_DEL_SKW_MASK = GENMASK 3 0"
definition AD9739A_REG_CROSS_CNT1 :: u32 where "AD9739A_REG_CROSS_CNT1 = 0x22"
definition AD9739A_REG_CROSS_CNT2 :: u32 where "AD9739A_REG_CROSS_CNT2 = 0x23"
definition AD9739A_REG_PHS_DET :: u32 where "AD9739A_REG_PHS_DET = 0x24"
definition AD9739A_REG_MU_DUTY :: u32 where "AD9739A_REG_MU_DUTY = 0x25"
definition AD9739A_REG_MU_CNT1 :: u32 where "AD9739A_REG_MU_CNT1 = 0x26"
definition AD9739A_MU_EN_MASK :: u32 where "AD9739A_MU_EN_MASK = BIT 0"
definition AD9739A_REG_MU_CNT2 :: u32 where "AD9739A_REG_MU_CNT2 = 0x27"
definition AD9739A_REG_MU_CNT3 :: u32 where "AD9739A_REG_MU_CNT3 = 0x28"
definition AD9739A_REG_MU_CNT4 :: u32 where "AD9739A_REG_MU_CNT4 = 0x29"
definition AD9739A_MU_CNT4_DEFAULT :: u32 where "AD9739A_MU_CNT4_DEFAULT = 0xcb"
definition AD9739A_REG_MU_STAT1 :: u32 where "AD9739A_REG_MU_STAT1 = 0x2A"
definition AD9739A_MU_LOCK_MASK :: u32 where "AD9739A_MU_LOCK_MASK = BIT 0"
definition AD9739A_REG_ANA_CNT_1 :: u32 where "AD9739A_REG_ANA_CNT_1 = 0x32"
definition AD9739A_REG_ID :: u32 where "AD9739A_REG_ID = 0x35"
definition AD9739A_ID :: u32 where "AD9739A_ID = 0x24"

definition AD9739A_MIN_DAC_CLK :: ulong where "AD9739A_MIN_DAC_CLK = 1600 * MEGA"
definition AD9739A_MAX_DAC_CLK :: ulong where "AD9739A_MAX_DAC_CLK = 2500 * MEGA"
definition AD9739A_DAC_CLK_RANGE :: ulong where
  "AD9739A_DAC_CLK_RANGE = AD9739A_MAX_DAC_CLK - AD9739A_MIN_DAC_CLK + 1"
definition AD9739A_LOCK_N_TRIES :: nat where "AD9739A_LOCK_N_TRIES = 3"

definition ad9739a_reg_accessible :: "u32 \<Rightarrow> bool" where
  "ad9739a_reg_accessible reg =
     (if reg = 0x5 \<or> reg = 0x9 \<or> reg = 0x0E \<or> reg = 0x0D \<or> reg = 0x2B \<or> reg = 0x2C \<or> reg = 0x34
      then False
      else if reg > AD9739A_REG_MU_STAT1 \<and> reg < AD9739A_REG_ANA_CNT_1 then False
      else True)"

definition ad9739a_regmap_config :: regmap_config where
  "ad9739a_regmap_config =
     \<lparr>reg_bits = 8, val_bits = 8, reg_stride = 0, max_register = AD9739A_REG_ID,
      readable_reg = Some ad9739a_reg_accessible,
      writeable_reg = Some ad9739a_reg_accessible\<rparr>"

subsection \<open>ad9739a_reset\<close>

definition ad9739a_reset :: "env \<Rightarrow> world \<Rightarrow> int \<times> world" where
  "ad9739a_reset env w =
     (let (gpio, w1) = ext env (Devm_gpiod_get_optional ''reset'' GPIOD_OUT_HIGH) w in
      if ret gpio \<noteq> 0 then (ret gpio, w1)
      else if \<not> rnull gpio then
        (0, emit (Gpiod_set_value_cansleep 0) (ndelay 40 w1))
      else
        (let (r, w2) = regmap_set_bits env AD9739A_REG_MODE AD9739A_RESET_MASK w1 in
         if r \<noteq> 0 then (r, w2)
         else regmap_clear_bits env AD9739A_REG_MODE AD9739A_RESET_MASK (ndelay 40 w2)))"

subsection \<open>ad9739a_init\<close>

definition ad9739a_clk_mu_ctrl :: "(u32 \<times> u32) list" where
  "ad9739a_clk_mu_ctrl =
     [(AD9739A_REG_CROSS_CNT1, 0x0f),
      (AD9739A_REG_CROSS_CNT2, 0x0f),
      (AD9739A_REG_PHS_DET, 0x30),
      (AD9739A_REG_MU_DUTY, 0x80),
      (AD9739A_REG_MU_CNT2, 0x44),
      (AD9739A_REG_MU_CNT3, 0x6c)]"

text \<open>
  How a \<^verbatim>\<open>for\<close> loop of \<^verbatim>\<open>ad9739a_init\<close> is left: by a \<^verbatim>\<open>return\<close> inside its
  body, or past its end (the counter ran out, or a \<^verbatim>\<open>break\<close>) with the current value
  of \<^verbatim>\<open>ret\<close>.
\<close>

datatype loop_exit = Returned int | Fell_through int

text \<open>
  The Mu lock loop, \<^verbatim>\<open>for (i = 0; i < AD9739A_LOCK_N_TRIES; i++)\<close>: the body does not
  read \<^verbatim>\<open>i\<close>, so the recursion is on the tries left, \<^verbatim>\<open>AD9739A_LOCK_N_TRIES - i\<close>.
\<close>

fun ad9739a_init_lock_loop :: "env \<Rightarrow> nat \<Rightarrow> int \<Rightarrow> world \<Rightarrow> loop_exit \<times> world" where
  "ad9739a_init_lock_loop env 0 rc w = (Fell_through rc, w)"
| "ad9739a_init_lock_loop env (Suc n) rc w =
     (let (rc1, w1) = regmap_write env AD9739A_REG_MU_CNT4 AD9739A_MU_CNT4_DEFAULT w in
      if rc1 \<noteq> 0 then (Returned rc1, w1)
      else
        (let (rc2, w2) = regmap_set_bits env AD9739A_REG_MU_CNT1 AD9739A_MU_EN_MASK w1 in
         if rc2 \<noteq> 0 then (Returned rc2, w2)
         else
           (let (rc3, w3) = regmap_read_poll_timeout env AD9739A_REG_MU_STAT1
                               AD9739A_MU_LOCK_MASK 0 1000 w2 in
            if rc3 = 0 then (Fell_through rc3, w3)
            else ad9739a_init_lock_loop env n rc3 w3)))"

text \<open>The skew loop: the same counter, one \<^verbatim>\<open>regmap_update_bits\<close> per round.\<close>

fun ad9739a_init_skew_loop :: "env \<Rightarrow> nat \<Rightarrow> int \<Rightarrow> world \<Rightarrow> loop_exit \<times> world" where
  "ad9739a_init_skew_loop env 0 rc w = (Fell_through rc, w)"
| "ad9739a_init_skew_loop env (Suc n) rc w =
     (let (rc1, w1) = regmap_update_bits env AD9739A_REG_LVDS_REC_CNT4 AD9739A_FINE_DEL_SKW_MASK
                         (FIELD_PREP AD9739A_FINE_DEL_SKW_MASK 2) w in
      if rc1 \<noteq> 0 then (Returned rc1, w1)
      else ad9739a_init_skew_loop env n rc1 w1)"

text \<open>
  \<^verbatim>\<open>ad9739a_init\<close> is declared \<^verbatim>\<open>int\<close>, and its body ends after the skew loop with
  no \<^verbatim>\<open>return\<close> statement. The result is \<open>Some r\<close> for \<^verbatim>\<open>return r\<close> and \<open>None\<close>
  when control reaches the closing brace.
\<close>

definition ad9739a_init :: "env \<Rightarrow> world \<Rightarrow> int option \<times> world" where
  "ad9739a_init env w =
     (let (rc, w1) = regmap_multi_reg_write env ad9739a_clk_mu_ctrl w in
      if rc \<noteq> 0 then (Some rc, w1)
      else
        (case ad9739a_init_lock_loop env AD9739A_LOCK_N_TRIES rc w1 of
           (Returned r, w2) \<Rightarrow> (Some r, w2)
         | (Fell_through rc2, w2) \<Rightarrow>
             if rc2 \<noteq> 0 then (let (e, w3) = dev_err_probe rc2 w2 in (Some e, w3))
             else
               (case ad9739a_init_skew_loop env AD9739A_LOCK_N_TRIES rc2 w2 of
                  (Returned r, w3) \<Rightarrow> (Some r, w3)
                | (Fell_through rc3, w3) \<Rightarrow> (None, w3))))"

subsection \<open>ad9739a_probe\<close>

record ad9739a_state =
  back_handle :: nat
  regmap :: nat
  sample_rate :: ulong

definition zeroed_state :: ad9739a_state where
  "zeroed_state = \<lparr>back_handle = 0, regmap = 0, sample_rate = 0\<rparr>"

text \<open>
  The probe reads the result of \<^verbatim>\<open>ad9739a_init\<close> into \<^verbatim>\<open>ret\<close>. When the callee ended
  without a \<^verbatim>\<open>return\<close>, what the caller reads is not determined by the program; it is
  the parameter \<open>indet\<close>.
\<close>

definition ad9739a_probe :: "env \<Rightarrow> int \<Rightarrow> world \<Rightarrow> int \<times> ad9739a_state \<times> world" where
  "ad9739a_probe env indet w =
     (let (indio_dev, w1) = ext env Devm_iio_device_alloc w in
      if rnull indio_dev then (- ENOMEM, zeroed_state, w1)
      else
        (let (clk, w2) = ext env Devm_clk_get_enabled w1 in
         if ret clk \<noteq> 0 then (ret clk, zeroed_state, w2)
         else
           (let (rate, w3) = ext env Clk_get_rate w2;
                st1 = zeroed_state\<lparr>sample_rate := of_nat (rval rate)\<rparr> in
            if \<not> in_range (sample_rate st1) AD9739A_MIN_DAC_CLK AD9739A_DAC_CLK_RANGE
            then (let (e, w4) = dev_err_probe (- EINVAL) w3 in (e, st1, w4))
            else
              (let (rm, w4) = ext env Devm_regmap_init_spi w3;
                   st2 = st1\<lparr>regmap := rval rm\<rparr> in
               if ret rm \<noteq> 0 then (ret rm, st2, w4)
               else
                 (let (rc, ident, w5) = regmap_read env AD9739A_REG_ID w4 in
                  if rc \<noteq> 0 then (rc, st2, w5)
                  else if ident \<noteq> AD9739A_ID
                  then (let (e, w6) = dev_err_probe (- ENODEV) w5 in (e, st2, w6))
                  else
                    (let (rc1, w6) = ad9739a_reset env w5 in
                     if rc1 \<noteq> 0 then (rc1, st2, w6)
                     else
                       (let (r, w7) = ad9739a_init env w6;
                            rc2 = (case r of Some v \<Rightarrow> v | None \<Rightarrow> indet) in
                        if rc2 \<noteq> 0 then (rc2, st2, w7)
                        else
                          (let (b, w8) = ext env Devm_iio_backend_get w7;
                               st3 = st2\<lparr>back_handle := rval b\<rparr> in
                           if ret b \<noteq> 0 then (ret b, st3, w8)
                           else
                             (let (rb, w9) = ext env Devm_iio_backend_request_buffer w8 in
                              if ret rb \<noteq> 0 then (ret rb, st3, w9)
                              else
                                (let (rr, w10) = ext env Devm_iio_device_register w9 in
                                 (ret rr, st3, w10)))))))))))"

subsection \<open>ad9739a_read_raw and ad9739a_write_raw of the frontend\<close>

text \<open>
  Modelled from the spec: \<^verbatim>\<open>enum iio_chan_info_enum\<close> and \<^verbatim>\<open>IIO_VAL_INT\<close> are declared
  in \<^verbatim>\<open>linux/iio/types.h\<close>, which is not among the sources. The four attributes the
  drivers name (scale, frequency, phase, sample rate) are kept apart; every other value
  of the \<^verbatim>\<open>long mask\<close> is \<open>IIO_CHAN_INFO_OTHER\<close>.
\<close>

datatype iio_chan_info_enum =
    IIO_CHAN_INFO_SCALE
  | IIO_CHAN_INFO_FREQUENCY
  | IIO_CHAN_INFO_PHASE
  | IIO_CHAN_INFO_SAMP_FREQ
  | IIO_CHAN_INFO_OTHER int






section \<open>The backend: adi-axi-dac.c\<close>

definition AXI_REG_RSTN :: u32 where "AXI_REG_RSTN = 0x0040"
definition AXI_REG_RSTN_CE_N :: u32 where "AXI_REG_RSTN_CE_N = BIT 2"
definition AXI_REG_RSTN_MMCM_RSTN :: u32 where "AXI_REG_RSTN_MMCM_RSTN = BIT 1"
definition AXI_REG_RSTN_RSTN :: u32 where "AXI_REG_RSTN_RSTN = BIT 0"

definition AXI_REG_CHAN_CNTRL_7 :: "u32 \<Rightarrow> u32" where
  "AXI_REG_CHAN_CNTRL_7 c = 0x0418 + c * 0x40"

definition AXI_DAC_DATA_SEL_MASK :: u32 where "AXI_DAC_DATA_SEL_MASK = GENMASK 3 0"
definition AXI_DAC_DATA_INTERNAL_TONE :: u32 where "AXI_DAC_DATA_INTERNAL_TONE = 0"
definition AXI_DAC_DATA_DMA :: u32 where "AXI_DAC_DATA_DMA = 2"

text \<open>The enumerations and the format structure of \<^verbatim>\<open>include/linux/iio/backend.h\<close>.\<close>

datatype iio_backend_data_type =
    IIO_BACKEND_TWOS_COMPLEMENT
  | IIO_BACKEND_OFFSET_BINARY
  | IIO_BACKEND_DATA_TYPE_MAX

datatype iio_backend_data_source =
    IIO_BACKEND_INTERNAL_CW
  | IIO_BACKEND_EXTERNAL
  | IIO_BACKEND_DATA_SOURCE_MAX

record iio_backend_data_fmt =
  fmt_type :: iio_backend_data_type
  sign_extend :: bool
  fmt_enable :: bool

text \<open>
  The backend's functions work on the one register block of the world; the handle
  \<^verbatim>\<open>back\<close> and its private state only lead to it.
\<close>

definition axi_dac_enable :: "env \<Rightarrow> world \<Rightarrow> int \<times> world" where
  "axi_dac_enable env w =
     (let (rc, w1) = regmap_set_bits env AXI_REG_RSTN AXI_REG_RSTN_MMCM_RSTN w in
      if rc \<noteq> 0 then (rc, w1)
      else regmap_set_bits env AXI_REG_RSTN (AXI_REG_RSTN_RSTN OR AXI_REG_RSTN_MMCM_RSTN)
             (fsleep 10 w1))"

text \<open>\<^verbatim>\<open>axi_dac_disable\<close> is \<^verbatim>\<open>void\<close>: the result of its register write is dropped.\<close>

definition axi_dac_disable :: "env \<Rightarrow> world \<Rightarrow> world" where
  "axi_dac_disable env w = snd (regmap_write env AXI_REG_RSTN 0 w)"

text \<open>
  Modelled from the spec: \<^verbatim>\<open>INDIO_BUFFER_HARDWARE\<close> is a mode bit of
  \<^verbatim>\<open>linux/iio/iio.h\<close>, which is not among the sources ("marks the owning streaming
  device as hardware-buffered").
\<close>

definition INDIO_BUFFER_HARDWARE :: u32 where "INDIO_BUFFER_HARDWARE = 0x08"

definition axi_dac_request_buffer :: "env \<Rightarrow> world \<Rightarrow> reply \<times> world" where
  "axi_dac_request_buffer env w =
     (let (p, w1) = ext env (Device_property_read_string ''dma-names'') w;
          dma_name = (if ret p \<noteq> 0 then ''tx'' else rstr p);
          (buffer, w2) = ext env (Iio_dmaengine_buffer_alloc dma_name) w1 in
      if ret buffer \<noteq> 0 then (buffer, emit Dev_err w2)
      else
        (let w3 = w2\<lparr>modes := modes w2 OR INDIO_BUFFER_HARDWARE\<rparr>;
             w4 = emit Iio_buffer_set_dir_out w3;
             (a, w5) = ext env Iio_device_attach_buffer w4 in
         if ret a \<noteq> 0 then (\<lparr>ret = ret a, rval = 0, rnull = False, rstr = []\<rparr>, w5)
         else (buffer, w5)))"

definition axi_dac_free_buffer :: "env \<Rightarrow> world \<Rightarrow> world" where
  "axi_dac_free_buffer env w = emit Iio_dmaengine_buffer_free w"

text \<open>
  The two attribute functions of the backend file. The source defines them under the
  names \<^verbatim>\<open>ad9739a_read_raw\<close> and \<^verbatim>\<open>ad9739a_write_raw\<close> (lines 105 to 139 of
  \<^verbatim>\<open>adi-axi-dac.c\<close>), the names of the frontend's functions; here they carry the
  file's prefix. Both fetch the private state and never use it.
\<close>

definition adi_axi_dac_ad9739a_read_raw ::
  "env \<Rightarrow> nat \<Rightarrow> int \<Rightarrow> int \<Rightarrow> iio_chan_info_enum \<Rightarrow> world \<Rightarrow> (int \<times> int \<times> int) \<times> world" where
  "adi_axi_dac_ad9739a_read_raw env chan val val2 m w =
     (case m of
        IIO_CHAN_INFO_SCALE \<Rightarrow> ((0, val, val2), w)
      | IIO_CHAN_INFO_FREQUENCY \<Rightarrow> ((0, val, val2), w)
      | IIO_CHAN_INFO_PHASE \<Rightarrow> ((0, val, val2), w)
      | _ \<Rightarrow> ((- EINVAL, val, val2), w))"

definition adi_axi_dac_ad9739a_write_raw ::
  "env \<Rightarrow> nat \<Rightarrow> int \<Rightarrow> int \<Rightarrow> iio_chan_info_enum \<Rightarrow> world \<Rightarrow> int \<times> world" where
  "adi_axi_dac_ad9739a_write_raw env chan val val2 m w =
     (case m of
        IIO_CHAN_INFO_SCALE \<Rightarrow> (0, w)
      | IIO_CHAN_INFO_FREQUENCY \<Rightarrow> (0, w)
      | IIO_CHAN_INFO_PHASE \<Rightarrow> (0, w)
      | _ \<Rightarrow> (- EINVAL, w))"

definition axi_dac_data_source_set ::
  "env \<Rightarrow> u32 \<Rightarrow> iio_backend_data_source \<Rightarrow> world \<Rightarrow> int \<times> world" where
  "axi_dac_data_source_set env chan d w =
     (case d of
        IIO_BACKEND_INTERNAL_CW \<Rightarrow>
          regmap_update_bits env (AXI_REG_CHAN_CNTRL_7 chan) AXI_DAC_DATA_SEL_MASK
            AXI_DAC_DATA_INTERNAL_TONE w
      | IIO_BACKEND_EXTERNAL \<Rightarrow>
          regmap_update_bits env (AXI_REG_CHAN_CNTRL_7 chan) AXI_DAC_DATA_SEL_MASK
            AXI_DAC_DATA_DMA w
      | _ \<Rightarrow> (- EINVAL, w))"

text \<open>
  The operations table \<^verbatim>\<open>struct iio_backend_ops\<close>: a member the initialiser does not
  name is a null pointer, \<open>None\<close>. The table of the backend names \<^verbatim>\<open>axi_dac_read_raw\<close>
  and \<^verbatim>\<open>axi_dac_write_raw\<close> for \<^verbatim>\<open>.read_raw\<close> and \<^verbatim>\<open>.write_raw\<close>; no file of the
  sources defines a function of either name, so the two are parameters of the table.
\<close>

record iio_backend_ops =
  enable :: "(env \<Rightarrow> world \<Rightarrow> int \<times> world) option"
  disable :: "(env \<Rightarrow> world \<Rightarrow> world) option"
  chan_enable :: "(env \<Rightarrow> u32 \<Rightarrow> world \<Rightarrow> int \<times> world) option"
  chan_disable :: "(env \<Rightarrow> u32 \<Rightarrow> world \<Rightarrow> int \<times> world) option"
  data_format_set :: "(env \<Rightarrow> u32 \<Rightarrow> iio_backend_data_fmt \<Rightarrow> world \<Rightarrow> int \<times> world) option"
  data_source_set :: "(env \<Rightarrow> u32 \<Rightarrow> iio_backend_data_source \<Rightarrow> world \<Rightarrow> int \<times> world) option"
  request_buffer :: "(env \<Rightarrow> world \<Rightarrow> reply \<times> world) option"
  free_buffer :: "(env \<Rightarrow> world \<Rightarrow> world) option"
  read_raw ::
    "(env \<Rightarrow> nat \<Rightarrow> int \<Rightarrow> int \<Rightarrow> iio_chan_info_enum \<Rightarrow> world \<Rightarrow> (int \<times> int \<times> int) \<times> world) option"
  write_raw ::
    "(env \<Rightarrow> nat \<Rightarrow> int \<Rightarrow> int \<Rightarrow> iio_chan_info_enum \<Rightarrow> world \<Rightarrow> int \<times> world) option"

definition axi_dac_generic ::
  "(env \<Rightarrow> nat \<Rightarrow> int \<Rightarrow> int \<Rightarrow> iio_chan_info_enum \<Rightarrow> world \<Rightarrow> (int \<times> int \<times> int) \<times> world)
     \<Rightarrow> (env \<Rightarrow> nat \<Rightarrow> int \<Rightarrow> int \<Rightarrow> iio_chan_info_enum \<Rightarrow> world \<Rightarrow> int \<times> world)
     \<Rightarrow> iio_backend_ops" where
  "axi_dac_generic axi_dac_read_raw axi_dac_write_raw =
     \<lparr>enable = Some axi_dac_enable,
      disable = Some axi_dac_disable,
      chan_enable = None,
      chan_disable = None,
      data_format_set = None,
      data_source_set = Some axi_dac_data_source_set,
      request_buffer = Some axi_dac_request_buffer,
      free_buffer = Some axi_dac_free_buffer,
      read_raw = Some axi_dac_read_raw,
      write_raw = Some axi_dac_write_raw\<rparr>"

definition axi_dac_regmap_config :: regmap_config where
  "axi_dac_regmap_config =
     \<lparr>reg_bits = 32, val_bits = 32, reg_stride = 4, max_register = 0x0800,
      readable_reg = None, writeable_reg = None\<rparr>"

text \<open>
  \<^verbatim>\<open>axi_dac_probe\<close>. The register \<^verbatim>\<open>ADI_AXI_REG_VERSION\<close> and the macro
  \<^verbatim>\<open>ADI_AXI_PCORE_VER_MAJOR\<close> come from \<^verbatim>\<open>linux/fpga/adi-axi-common.h\<close>, which is not
  among the sources: they are the parameters \<open>reg_version\<close> and \<open>ver_major\<close>. The
  match data is the reply to \<^verbatim>\<open>device_get_match_data\<close>: a null pointer, or the expected
  version.
\<close>

definition axi_dac_probe :: "(u32 \<Rightarrow> u32) \<Rightarrow> u32 \<Rightarrow> env \<Rightarrow> world \<Rightarrow> int \<times> world" where
  "axi_dac_probe ver_major reg_version env w =
     (let (st, w1) = ext env Devm_kzalloc w in
      if rnull st then (- ENOMEM, w1)
      else
        (let (expected_ver, w2) = ext env Device_get_match_data w1 in
         if rnull expected_ver then (- ENODEV, w2)
         else
           (let (clk, w3) = ext env Devm_clk_get_enabled w2 in
            if ret clk \<noteq> 0 then (ret clk, w3)
            else
              (let (base, w4) = ext env Devm_platform_ioremap_resource w3 in
               if ret base \<noteq> 0 then (ret base, w4)
               else
                 (let (rm, w5) = ext env Devm_regmap_init_mmio w4 in
                  if ret rm \<noteq> 0 then (ret rm, w5)
                  else
                    (let (rc, w6) = regmap_write env AXI_REG_RSTN 0 w5 in
                     if rc \<noteq> 0 then (rc, w6)
                     else
                       (let (rc1, ver, w7) = regmap_read env reg_version w6 in
                        if rc1 \<noteq> 0 then (rc1, w7)
                        else if ver_major ver \<noteq> ver_major (of_nat (rval expected_ver))
                        then (- ENODEV, emit Dev_err w7)
                        else
                          (let (r, w8) = ext env Devm_iio_backend_register w7 in
                           if ret r \<noteq> 0 then (ret r, w8)
                           else (0, emit Dev_info w8)))))))))"

section \<open>The calibration sequence as a list of stages\<close>

text \<open>
  The stages the specification names, and the three steps of the probe it does not
  (allocation, the creation of the register map, the final registration). Each stage is
  the piece of \<^verbatim>\<open>ad9739a_probe\<close>, \<^verbatim>\<open>ad9739a_reset\<close> or \<^verbatim>\<open>ad9739a_init\<close> that does
  what the specification says of it; \<open>run_stages\<close> runs a list of stages in order and
  stops at the first that does not return 0.
\<close>

datatype stage =
    Alloc
  | ClockValidate
  | RegmapInit
  | Identify
  | Reset
  | AnalogConfig
  | MuLock
  | SkewTrim
  | BackendBind
  | BufferReady
  | Register

fun calibration_stage ::
  "int \<Rightarrow> stage \<Rightarrow> env \<Rightarrow> ad9739a_state \<times> world \<Rightarrow> int \<times> ad9739a_state \<times> world" where
  "calibration_stage indet Alloc env (st, w) =
     (let (indio_dev, w1) = ext env Devm_iio_device_alloc w in
      if rnull indio_dev then (- ENOMEM, zeroed_state, w1) else (0, zeroed_state, w1))"
| "calibration_stage indet ClockValidate env (st, w) =
     (let (clk, w1) = ext env Devm_clk_get_enabled w in
      if ret clk \<noteq> 0 then (ret clk, st, w1)
      else
        (let (rate, w2) = ext env Clk_get_rate w1;
             st1 = st\<lparr>sample_rate := of_nat (rval rate)\<rparr> in
         if \<not> in_range (sample_rate st1) AD9739A_MIN_DAC_CLK AD9739A_DAC_CLK_RANGE
         then (let (e, w3) = dev_err_probe (- EINVAL) w2 in (e, st1, w3))
         else (0, st1, w2)))"
| "calibration_stage indet RegmapInit env (st, w) =
     (let (rm, w1) = ext env Devm_regmap_init_spi w in (ret rm, st\<lparr>regmap := rval rm\<rparr>, w1))"
| "calibration_stage indet Identify env (st, w) =
     (let (rc, ident, w1) = regmap_read env AD9739A_REG_ID w in
      if rc \<noteq> 0 then (rc, st, w1)
      else if ident \<noteq> AD9739A_ID
      then (let (e, w2) = dev_err_probe (- ENODEV) w1 in (e, st, w2))
      else (0, st, w1))"
| "calibration_stage indet Reset env (st, w) =
     (let (rc, w1) = ad9739a_reset env w in (rc, st, w1))"
| "calibration_stage indet AnalogConfig env (st, w) =
     (let (rc, w1) = regmap_multi_reg_write env ad9739a_clk_mu_ctrl w in (rc, st, w1))"
| "calibration_stage indet MuLock env (st, w) =
     (case ad9739a_init_lock_loop env AD9739A_LOCK_N_TRIES 0 w of
        (Returned r, w1) \<Rightarrow> (r, st, w1)
      | (Fell_through rc, w1) \<Rightarrow>
          if rc \<noteq> 0 then (let (e, w2) = dev_err_probe rc w1 in (e, st, w2))
          else (0, st, w1))"
| "calibration_stage indet SkewTrim env (st, w) =
     (case ad9739a_init_skew_loop env AD9739A_LOCK_N_TRIES 0 w of
        (Returned r, w1) \<Rightarrow> (r, st, w1)
      | (Fell_through rc, w1) \<Rightarrow> (indet, st, w1))"
| "calibration_stage indet BackendBind env (st, w) =
     (let (b, w1) = ext env Devm_iio_backend_get w in (ret b, st\<lparr>back_handle := rval b\<rparr>, w1))"
| "calibration_stage indet BufferReady env (st, w) =
     (let (rb, w1) = ext env Devm_iio_backend_request_buffer w in (ret rb, st, w1))"
| "calibration_stage indet Register env (st, w) =
     (let (rr, w1) = ext env Devm_iio_device_register w in (ret rr, st, w1))"

fun run_stages ::
  "(env \<Rightarrow> ad9739a_state \<times> world \<Rightarrow> int \<times> ad9739a_state \<times> world) list \<Rightarrow> env
     \<Rightarrow> ad9739a_state \<times> world \<Rightarrow> int \<times> ad9739a_state \<times> world" where
  "run_stages [] env (st, w) = (0, st, w)"
| "run_stages (s # ss) env (st, w) =
     (case s env (st, w) of
        (rc, st1, w1) \<Rightarrow> if rc \<noteq> 0 then (rc, st1, w1) else run_stages ss env (st1, w1))"

text \<open>The order the specification gives, and the order of the statements of the probe.\<close>

definition spec_stage_order :: "stage list" where
  "spec_stage_order =
     [Alloc, RegmapInit, Identify, Reset, ClockValidate, AnalogConfig, MuLock, SkewTrim,
      BackendBind, BufferReady, Register]"

definition code_stage_order :: "stage list" where
  "code_stage_order =
     [Alloc, ClockValidate, RegmapInit, Identify, Reset, AnalogConfig, MuLock, SkewTrim,
      BackendBind, BufferReady, Register]"

text \<open>
  The stage a call belongs to, read off the call itself: the clock services are
  ClockValidate, the read of a register is Identify (the probe reads only the chip ID),
  the reset line, the delay and the bits of the mode register are Reset, the
  multi-register write is AnalogConfig, the single write, the bits of another register
  and the poll are MuLock, the field update is SkewTrim. The diagnostics belong to no
  stage. \<open>stages_seen\<close> is the sequence of stages of a list of calls, a run of calls of
  one stage counted once.
\<close>

fun stage_of_call :: "call \<Rightarrow> stage option" where
  "stage_of_call Devm_iio_device_alloc = Some Alloc"
| "stage_of_call Devm_clk_get_enabled = Some ClockValidate"
| "stage_of_call Clk_get_rate = Some ClockValidate"
| "stage_of_call Devm_regmap_init_spi = Some RegmapInit"
| "stage_of_call (Regmap_read r) = Some Identify"
| "stage_of_call (Devm_gpiod_get_optional n f) = Some Reset"
| "stage_of_call (Gpiod_set_value_cansleep v) = Some Reset"
| "stage_of_call (Ndelay n) = Some Reset"
| "stage_of_call (Regmap_set_bits r b) =
     (if r = AD9739A_REG_MODE then Some Reset else Some MuLock)"
| "stage_of_call (Regmap_clear_bits r b) = Some Reset"
| "stage_of_call (Regmap_multi_reg_write rs) = Some AnalogConfig"
| "stage_of_call (Regmap_write r v) = Some MuLock"
| "stage_of_call (Regmap_read_poll_timeout r m s t) = Some MuLock"
| "stage_of_call (Regmap_update_bits r m v) = Some SkewTrim"
| "stage_of_call Devm_iio_backend_get = Some BackendBind"
| "stage_of_call Devm_iio_backend_request_buffer = Some BufferReady"
| "stage_of_call Devm_iio_device_register = Some Register"
| "stage_of_call c = None"

definition stages_seen :: "call list \<Rightarrow> stage list" where
  "stages_seen cs = remdups_adj (List.map_filter stage_of_call cs)"

section \<open>Test benches\<close>

text \<open>
  Environments for the concrete runs. \<open>bench rate\<close> is a healthy board: every service
  succeeds, the clock runs at \<open>rate\<close>, the chip answers the ID 0x24, there is no reset
  line (the soft reset is used) and the Mu controller locks at the first poll.
  \<open>axi_bench ver expected\<close> is a healthy core that reports the version \<open>ver\<close> where the
  match entry expects \<open>expected\<close>.
\<close>

definition ok_reply :: reply where
  "ok_reply = \<lparr>ret = 0, rval = 0, rnull = False, rstr = []\<rparr>"

definition bench :: "nat \<Rightarrow> env" where
  "bench rate h c =
     (case c of
        Clk_get_rate \<Rightarrow> ok_reply\<lparr>rval := rate\<rparr>
      | Regmap_read reg \<Rightarrow> ok_reply\<lparr>rval := (if reg = AD9739A_REG_ID then 0x24 else 0)\<rparr>
      | Devm_gpiod_get_optional n f \<Rightarrow> ok_reply\<lparr>rnull := True\<rparr>
      | _ \<Rightarrow> ok_reply)"

definition axi_bench :: "nat \<Rightarrow> nat \<Rightarrow> env" where
  "axi_bench ver expected h c =
     (case c of
        Device_get_match_data \<Rightarrow> ok_reply\<lparr>rval := expected\<rparr>
      | Regmap_read reg \<Rightarrow> ok_reply\<lparr>rval := ver\<rparr>
      | _ \<Rightarrow> ok_reply)"

text \<open>
  \<open>skew_fault_bench\<close> is the healthy board at 2000 MHz on a bus that rejects every field
  update with \<^verbatim>\<open>-EIO\<close>.
\<close>

definition skew_fault_bench :: env where
  "skew_fault_bench h c =
     (case c of
        Regmap_update_bits r m v \<Rightarrow> ok_reply\<lparr>ret := - EIO\<rparr>
      | _ \<Rightarrow> bench 2000000000 h c)"

definition world0 :: world where
  "world0 = \<lparr>trace = [], regs = (\<lambda>r. 0), modes = 0\<rparr>"

section \<open>Helper lemmas\<close>

subsection \<open>Evaluation\<close>

lemmas bus_defs = ext_def emit_def regmap_read_def regmap_write_def regmap_update_bits_def
  regmap_set_bits_def regmap_clear_bits_def regmap_multi_reg_write_def
  regmap_read_poll_timeout_def ndelay_def fsleep_def dev_err_probe_def

lemmas bench_defs = bench_def axi_bench_def ok_reply_def world0_def

lemmas ad9739a_regs = AD9739A_REG_MODE_def AD9739A_RESET_MASK_def AD9739A_REG_LVDS_REC_CNT4_def
  AD9739A_REG_MU_CNT1_def AD9739A_MU_EN_MASK_def AD9739A_REG_MU_CNT4_def
  AD9739A_MU_CNT4_DEFAULT_def AD9739A_REG_MU_STAT1_def AD9739A_MU_LOCK_MASK_def
  AD9739A_REG_ID_def AD9739A_ID_def BIT_def

lemma in_range_clk:
  "in_range r AD9739A_MIN_DAC_CLK AD9739A_DAC_CLK_RANGE = (1600000000 \<le> r \<and> r \<le> 2500000000)"
proof -
  have "unat r < 18446744073709551616"
    using unsigned_less [of r, where 'a = nat] by simp
  then show ?thesis
    unfolding in_range_def AD9739A_MIN_DAC_CLK_def AD9739A_DAC_CLK_RANGE_def
      AD9739A_MAX_DAC_CLK_def MEGA_def
    by (simp add: word_less_nat_alt word_le_nat_alt unat_sub_if_size word_size) arith
qed

lemma bf_shf_15: "bf_shf 15 = 0"
  unfolding bf_shf_def by (simp add: upt_conv_Cons)

lemma skew_mask: "AD9739A_FINE_DEL_SKW_MASK = 0xF"
  unfolding AD9739A_FINE_DEL_SKW_MASK_def GENMASK_def by (simp add: mask_eq_exp_minus_1)

lemma skew_value: "FIELD_PREP 0xF 2 = 2"
  unfolding FIELD_PREP_def bf_shf_15 by simp

lemma sel_mask: "AXI_DAC_DATA_SEL_MASK = 0xF"
  unfolding AXI_DAC_DATA_SEL_MASK_def GENMASK_def by (simp add: mask_eq_exp_minus_1)

lemma mu_cnt1_not_mode: "AD9739A_REG_MU_CNT1 \<noteq> AD9739A_REG_MODE"
  by (simp add: AD9739A_REG_MU_CNT1_def AD9739A_REG_MODE_def)

subsection \<open>Traces of the bus services\<close>

lemma trace_emit: "trace (emit c w) = trace w @ [c]"
  by (simp add: emit_def)

lemma trace_ext: "trace (snd (ext env c w)) = trace w @ [c]"
  by (simp add: ext_def emit_def)

lemma trace_regmap_read: "trace (snd (snd (regmap_read env r w))) = trace w @ [Regmap_read r]"
  by (simp add: bus_defs Let_def split_def)

lemma trace_regmap_write: "trace (snd (regmap_write env r v w)) = trace w @ [Regmap_write r v]"
  by (simp add: bus_defs Let_def split_def)

lemma trace_regmap_update_bits:
  "trace (snd (regmap_update_bits env r m v w)) = trace w @ [Regmap_update_bits r m v]"
  by (simp add: bus_defs Let_def split_def)

lemma trace_regmap_set_bits:
  "trace (snd (regmap_set_bits env r b w)) = trace w @ [Regmap_set_bits r b]"
  by (simp add: bus_defs Let_def split_def)

lemma trace_regmap_clear_bits:
  "trace (snd (regmap_clear_bits env r b w)) = trace w @ [Regmap_clear_bits r b]"
  by (simp add: bus_defs Let_def split_def)

lemma trace_regmap_multi_reg_write:
  "trace (snd (regmap_multi_reg_write env rs w)) = trace w @ [Regmap_multi_reg_write rs]"
  by (simp add: bus_defs Let_def split_def)

lemma trace_regmap_read_poll_timeout:
  "trace (snd (regmap_read_poll_timeout env r m s t w)) =
     trace w @ [Regmap_read_poll_timeout r m s t]"
  by (simp add: bus_defs Let_def split_def)

lemma trace_ndelay: "trace (ndelay n w) = trace w @ [Ndelay n]"
  by (simp add: ndelay_def emit_def)

lemma trace_dev_err_probe: "trace (snd (dev_err_probe e w)) = trace w @ [Dev_err_probe e]"
  by (simp add: dev_err_probe_def emit_def)

lemmas trace_simps = trace_emit trace_ext trace_regmap_read trace_regmap_write
  trace_regmap_update_bits trace_regmap_set_bits trace_regmap_clear_bits
  trace_regmap_multi_reg_write trace_regmap_read_poll_timeout trace_ndelay trace_dev_err_probe

subsection \<open>The loops of ad9739a_init\<close>

lemma lock_loop_returned:
  "fst (ad9739a_init_lock_loop env n rc w) \<noteq> Returned 0"
  by (induction n arbitrary: rc w) (simp_all add: Let_def split_def)

lemma skew_loop_returned:
  "fst (ad9739a_init_skew_loop env n rc w) \<noteq> Returned 0"
  by (induction n arbitrary: rc w) (simp_all add: Let_def split_def)

lemma lock_loop_returned_nonzero:
  "fst (ad9739a_init_lock_loop env n rc w) = Returned r \<Longrightarrow> r \<noteq> 0"
  using lock_loop_returned [of env n rc w] by auto

lemma skew_loop_returned_nonzero:
  "fst (ad9739a_init_skew_loop env n rc w) = Returned r \<Longrightarrow> r \<noteq> 0"
  using skew_loop_returned [of env n rc w] by auto

lemma lock_loop_rc:
  "0 < n \<Longrightarrow> ad9739a_init_lock_loop env n rc w = ad9739a_init_lock_loop env n 0 w"
  by (cases n) simp_all

lemma skew_loop_rc:
  "0 < n \<Longrightarrow> ad9739a_init_skew_loop env n rc w = ad9739a_init_skew_loop env n 0 w"
  by (cases n) simp_all

lemma init_never_zero: "fst (ad9739a_init env w) \<noteq> Some 0"
  by (auto simp: ad9739a_init_def Let_def split_def dev_err_probe_def
      split: loop_exit.splits
      dest: lock_loop_returned_nonzero skew_loop_returned_nonzero)

lemma skew_loop_trace:
  "\<exists>k\<le>n. trace (snd (ad9739a_init_skew_loop env n rc w)) =
            trace w @ replicate k (Regmap_update_bits 0x13 0xF 2) \<and>
          (\<forall>r. fst (ad9739a_init_skew_loop env n rc w) = Fell_through r \<longrightarrow> k = n)"
proof (induction n arbitrary: rc w)
  case 0
  then show ?case by simp
next
  case (Suc n)
  let ?c = "Regmap_update_bits 0x13 0xF 2"
  let ?w1 = "snd (regmap_update_bits env AD9739A_REG_LVDS_REC_CNT4 AD9739A_FINE_DEL_SKW_MASK
                    (FIELD_PREP AD9739A_FINE_DEL_SKW_MASK 2) w)"
  have t1: "trace ?w1 = trace w @ [?c]"
    by (simp add: trace_simps skew_value skew_mask AD9739A_REG_LVDS_REC_CNT4_def)
  show ?case
  proof (cases "fst (regmap_update_bits env AD9739A_REG_LVDS_REC_CNT4 AD9739A_FINE_DEL_SKW_MASK
                    (FIELD_PREP AD9739A_FINE_DEL_SKW_MASK 2) w) = 0")
    case False
    then have "trace (snd (ad9739a_init_skew_loop env (Suc n) rc w)) = trace w @ replicate 1 ?c"
      and "\<forall>r. fst (ad9739a_init_skew_loop env (Suc n) rc w) \<noteq> Fell_through r"
      using t1 by (simp_all add: Let_def split_def)
    then show ?thesis by (intro exI [of _ 1]) simp
  next
    case True
    from Suc.IH [of 0 ?w1] obtain k where k: "k \<le> n"
      "trace (snd (ad9739a_init_skew_loop env n 0 ?w1)) = trace ?w1 @ replicate k ?c"
      "\<forall>r. fst (ad9739a_init_skew_loop env n 0 ?w1) = Fell_through r \<longrightarrow> k = n"
      by blast
    with True t1 show ?thesis
      by (intro exI [of _ "Suc k"]) (simp add: Let_def split_def)
  qed
qed

lemma lock_loop_trace:
  "\<exists>pre. trace (snd (ad9739a_init_lock_loop env n rc w)) = trace w @ pre \<and>
         Regmap_update_bits 0x13 0xF 2 \<notin> set pre"
proof (induction n arbitrary: rc w)
  case 0
  then show ?case by simp
next
  case (Suc n)
  let ?w1 = "snd (regmap_write env AD9739A_REG_MU_CNT4 AD9739A_MU_CNT4_DEFAULT w)"
  let ?w2 = "snd (regmap_set_bits env AD9739A_REG_MU_CNT1 AD9739A_MU_EN_MASK ?w1)"
  let ?p = "regmap_read_poll_timeout env AD9739A_REG_MU_STAT1 AD9739A_MU_LOCK_MASK 0 1000 ?w2"
  from Suc.IH [of "fst ?p" "snd ?p"] obtain pre where
    "trace (snd (ad9739a_init_lock_loop env n (fst ?p) (snd ?p))) = trace (snd ?p) @ pre"
    "Regmap_update_bits 0x13 0xF 2 \<notin> set pre"
    by blast
  then show ?case
    by (simp add: Let_def split_def trace_simps)
qed

lemma init_bench_trace:
  "trace (snd (ad9739a_init (bench 2000000000) world0)) =
     [Regmap_multi_reg_write ad9739a_clk_mu_ctrl,
      Regmap_write 0x29 0xcb, Regmap_set_bits 0x26 1, Regmap_read_poll_timeout 0x2A 1 0 1000,
      Regmap_update_bits 0x13 0xF 2, Regmap_update_bits 0x13 0xF 2, Regmap_update_bits 0x13 0xF 2]"
  by (simp add: ad9739a_init_def AD9739A_LOCK_N_TRIES_def numeral_3_eq_3 bus_defs bench_defs
        Let_def split_def skew_value skew_mask ad9739a_regs)

lemma init_bench_result: "fst (ad9739a_init (bench 2000000000) world0) = None"
  by (simp add: ad9739a_init_def AD9739A_LOCK_N_TRIES_def numeral_3_eq_3 bus_defs bench_defs
        Let_def split_def)

lemma reset_bench:
  "ad9739a_reset (bench r) w =
     (0, w\<lparr>trace := trace w @ [Devm_gpiod_get_optional ''reset'' GPIOD_OUT_HIGH,
                                Regmap_set_bits 0 0x20, Ndelay 40, Regmap_clear_bits 0 0x20],
           regs := (regs w)(0 := (regs w 0 OR 0x20) AND NOT 0x20)\<rparr>)"
  by (simp add: ad9739a_reset_def bus_defs bench_defs Let_def split_def ad9739a_regs)

subsection \<open>The loops of ad9739a_init, call by call\<close>

lemma skew_write_reply:
  "fst (regmap_update_bits env AD9739A_REG_LVDS_REC_CNT4 AD9739A_FINE_DEL_SKW_MASK
          (FIELD_PREP AD9739A_FINE_DEL_SKW_MASK 2) w) =
     ret (env (trace w) (Regmap_update_bits 0x13 0xF 2))"
  "trace (snd (regmap_update_bits env AD9739A_REG_LVDS_REC_CNT4 AD9739A_FINE_DEL_SKW_MASK
          (FIELD_PREP AD9739A_FINE_DEL_SKW_MASK 2) w)) =
     trace w @ [Regmap_update_bits 0x13 0xF 2]"
  by (simp_all add: bus_defs skew_mask skew_value AD9739A_REG_LVDS_REC_CNT4_def Let_def split_def)

lemma skew_loop_exact:
  "\<exists>k\<le>n. trace (snd (ad9739a_init_skew_loop env n rc w)) =
            trace w @ replicate k (Regmap_update_bits 0x13 0xF 2) \<and>
          (0 < n \<longrightarrow> 0 < k) \<and>
          (\<forall>j. j + 1 < k \<longrightarrow>
             ret (env (trace w @ replicate j (Regmap_update_bits 0x13 0xF 2))
                    (Regmap_update_bits 0x13 0xF 2)) = 0) \<and>
          (0 < k \<longrightarrow>
             fst (ad9739a_init_skew_loop env n rc w) =
               (if ret (env (trace w @ replicate (k - 1) (Regmap_update_bits 0x13 0xF 2))
                          (Regmap_update_bits 0x13 0xF 2)) \<noteq> 0
                then Returned (ret (env (trace w @ replicate (k - 1) (Regmap_update_bits 0x13 0xF 2))
                                      (Regmap_update_bits 0x13 0xF 2)))
                else Fell_through 0) \<and>
             (ret (env (trace w @ replicate (k - 1) (Regmap_update_bits 0x13 0xF 2))
                     (Regmap_update_bits 0x13 0xF 2)) = 0 \<longrightarrow> k = n))"
proof (induction n arbitrary: rc w)
  case 0
  then show ?case by simp
next
  case (Suc n)
  let ?c = "Regmap_update_bits 0x13 0xF 2"
  let ?u = "regmap_update_bits env AD9739A_REG_LVDS_REC_CNT4 AD9739A_FINE_DEL_SKW_MASK
              (FIELD_PREP AD9739A_FINE_DEL_SKW_MASK 2) w"
  note u = skew_write_reply [of env w]
  show ?case
  proof (cases "ret (env (trace w) ?c) = 0")
    case False
    then have "ad9739a_init_skew_loop env (Suc n) rc w = (Returned (ret (env (trace w) ?c)), snd ?u)"
      using u by (simp add: Let_def split_def)
    with False u show ?thesis
      by (intro exI [of _ 1]) simp
  next
    case True
    then have step: "ad9739a_init_skew_loop env (Suc n) rc w =
        ad9739a_init_skew_loop env n 0 (snd ?u)"
      using u by (simp add: Let_def split_def)
    from Suc.IH [of 0 "snd ?u"] obtain k where k: "k \<le> n"
      "trace (snd (ad9739a_init_skew_loop env n 0 (snd ?u))) = trace (snd ?u) @ replicate k ?c"
      "0 < n \<longrightarrow> 0 < k"
      "\<forall>j. j + 1 < k \<longrightarrow> ret (env (trace (snd ?u) @ replicate j ?c) ?c) = 0"
      "0 < k \<longrightarrow>
         fst (ad9739a_init_skew_loop env n 0 (snd ?u)) =
           (if ret (env (trace (snd ?u) @ replicate (k - 1) ?c) ?c) \<noteq> 0
            then Returned (ret (env (trace (snd ?u) @ replicate (k - 1) ?c) ?c))
            else Fell_through 0) \<and>
         (ret (env (trace (snd ?u) @ replicate (k - 1) ?c) ?c) = 0 \<longrightarrow> k = n)"
      by blast
    show ?thesis
    proof (cases k)
      case 0
      with k(3) have n0: "n = 0" by simp
      with True step u show ?thesis
        by (intro exI [of _ 1]) simp
    next
      case (Suc m)
      have hist: "\<And>j. trace (snd ?u) @ replicate j ?c = trace w @ replicate (Suc j) ?c"
        using u by simp
      have early: "\<forall>j. j + 1 < Suc k \<longrightarrow> ret (env (trace w @ replicate j ?c) ?c) = 0"
      proof (intro allI impI)
        fix j assume j: "j + 1 < Suc k"
        show "ret (env (trace w @ replicate j ?c) ?c) = 0"
        proof (cases j)
          case 0
          with True show ?thesis by simp
        next
          case (Suc i)
          with j have "i + 1 < k" by simp
          with k(4) have "ret (env (trace (snd ?u) @ replicate i ?c) ?c) = 0" by blast
          with Suc show ?thesis unfolding hist by simp
        qed
      qed
      have last: "trace w @ replicate (Suc k - 1) ?c = trace (snd ?u) @ replicate (k - 1) ?c"
        unfolding hist using Suc by simp
      from k(5) Suc have res:
        "fst (ad9739a_init_skew_loop env n 0 (snd ?u)) =
           (if ret (env (trace (snd ?u) @ replicate (k - 1) ?c) ?c) \<noteq> 0
            then Returned (ret (env (trace (snd ?u) @ replicate (k - 1) ?c) ?c))
            else Fell_through 0)"
        "ret (env (trace (snd ?u) @ replicate (k - 1) ?c) ?c) = 0 \<longrightarrow> k = n"
        by simp_all
      have tr: "trace (snd (ad9739a_init_skew_loop env (Suc n) rc w)) = trace w @ replicate (Suc k) ?c"
        unfolding step k(2) hist ..
      show ?thesis
        apply (intro exI [of _ "Suc k"] conjI)
            apply (use k(1) in simp)
           apply (rule tr)
          apply simp
         apply (rule early)
        apply (unfold last step)
        apply (use res in simp)
        done
    qed
  qed
qed

lemma mu_calls:
  "fst (regmap_write env AD9739A_REG_MU_CNT4 AD9739A_MU_CNT4_DEFAULT w) =
     ret (env (trace w) (Regmap_write 0x29 0xcb))"
  "trace (snd (regmap_write env AD9739A_REG_MU_CNT4 AD9739A_MU_CNT4_DEFAULT w)) =
     trace w @ [Regmap_write 0x29 0xcb]"
  "fst (regmap_set_bits env AD9739A_REG_MU_CNT1 AD9739A_MU_EN_MASK w) =
     ret (env (trace w) (Regmap_set_bits 0x26 1))"
  "trace (snd (regmap_set_bits env AD9739A_REG_MU_CNT1 AD9739A_MU_EN_MASK w)) =
     trace w @ [Regmap_set_bits 0x26 1]"
  "fst (regmap_read_poll_timeout env AD9739A_REG_MU_STAT1 AD9739A_MU_LOCK_MASK 0 1000 w) =
     ret (env (trace w) (Regmap_read_poll_timeout 0x2A 1 0 1000))"
  "trace (snd (regmap_read_poll_timeout env AD9739A_REG_MU_STAT1 AD9739A_MU_LOCK_MASK 0 1000 w)) =
     trace w @ [Regmap_read_poll_timeout 0x2A 1 0 1000]"
  by (simp_all add: bus_defs ad9739a_regs Let_def split_def)

lemma lock_loop_exact:
  "\<exists>new. trace (snd (ad9739a_init_lock_loop env n rc w)) = trace w @ new \<and>
         Regmap_update_bits 0x13 0xF 2 \<notin> set new \<and>
         (0 < n \<longrightarrow> new \<noteq> [] \<and>
            (case fst (ad9739a_init_lock_loop env n rc w) of
               Returned r \<Rightarrow> last new \<noteq> Regmap_read_poll_timeout 0x2A 1 0 1000
             | Fell_through r \<Rightarrow>
                 last new = Regmap_read_poll_timeout 0x2A 1 0 1000 \<and>
                 ret (env (trace w @ butlast new) (Regmap_read_poll_timeout 0x2A 1 0 1000)) = r))"
proof (induction n arbitrary: rc w)
  case 0
  then show ?case by simp
next
  case (Suc n)
  let ?W = "Regmap_write 0x29 0xcb"
  let ?S = "Regmap_set_bits 0x26 1"
  let ?P = "Regmap_read_poll_timeout 0x2A 1 0 1000"
  let ?w1 = "snd (regmap_write env AD9739A_REG_MU_CNT4 AD9739A_MU_CNT4_DEFAULT w)"
  let ?w2 = "snd (regmap_set_bits env AD9739A_REG_MU_CNT1 AD9739A_MU_EN_MASK ?w1)"
  let ?w3 = "snd (regmap_read_poll_timeout env AD9739A_REG_MU_STAT1 AD9739A_MU_LOCK_MASK 0 1000 ?w2)"
  let ?r3 = "ret (env (trace w @ [?W, ?S]) ?P)"
  have t3: "trace ?w3 = trace w @ [?W, ?S, ?P]"
    by (simp add: mu_calls)
  consider (w) "ret (env (trace w) ?W) \<noteq> 0"
    | (s) "ret (env (trace w) ?W) = 0" "ret (env (trace w @ [?W]) ?S) \<noteq> 0"
    | (lock) "ret (env (trace w) ?W) = 0" "ret (env (trace w @ [?W]) ?S) = 0" "?r3 = 0"
    | (again) "ret (env (trace w) ?W) = 0" "ret (env (trace w @ [?W]) ?S) = 0" "?r3 \<noteq> 0"
    by blast
  then show ?case
  proof cases
    case w
    then show ?thesis
      by (intro exI [of _ "[?W]"]) (simp add: mu_calls Let_def split_def)
  next
    case s
    then show ?thesis
      by (intro exI [of _ "[?W, ?S]"]) (simp add: mu_calls Let_def split_def)
  next
    case lock
    then show ?thesis
      by (intro exI [of _ "[?W, ?S, ?P]"]) (simp add: mu_calls Let_def split_def)
  next
    case again
    then have step: "ad9739a_init_lock_loop env (Suc n) rc w = ad9739a_init_lock_loop env n ?r3 ?w3"
      by (simp add: mu_calls Let_def split_def)
    from Suc.IH [of ?r3 ?w3] obtain new where new:
      "trace (snd (ad9739a_init_lock_loop env n ?r3 ?w3)) = trace ?w3 @ new"
      "Regmap_update_bits 0x13 0xF 2 \<notin> set new"
      "0 < n \<longrightarrow> new \<noteq> [] \<and>
            (case fst (ad9739a_init_lock_loop env n ?r3 ?w3) of
               Returned r \<Rightarrow> last new \<noteq> ?P
             | Fell_through r \<Rightarrow>
                 last new = ?P \<and> ret (env (trace ?w3 @ butlast new) ?P) = r)"
      by blast
    show ?thesis
    proof (cases n)
      case 0
      then show ?thesis
        unfolding step using t3
        by (intro exI [of _ "[?W, ?S, ?P]"]) simp
    next
      case (Suc m)
      with new(3) have ne: "new \<noteq> []" and c:
        "case fst (ad9739a_init_lock_loop env n ?r3 ?w3) of
               Returned r \<Rightarrow> last new \<noteq> ?P
             | Fell_through r \<Rightarrow>
                 last new = ?P \<and> ret (env (trace ?w3 @ butlast new) ?P) = r"
        by simp_all
      have b: "trace w @ butlast ([?W, ?S, ?P] @ new) = trace ?w3 @ butlast new"
        using ne t3 by (simp add: butlast_append)
      have l: "last ([?W, ?S, ?P] @ new) = last new"
        using ne by simp
      show ?thesis
        unfolding step
        apply (intro exI [of _ "[?W, ?S, ?P] @ new"] conjI impI)
           apply (simp add: new(1) t3)
          apply (use new(2) in simp)
         apply simp
        apply (unfold b l)
        apply (rule c)
        done
    qed
  qed
qed

subsection \<open>One stage at the head of a list\<close>

lemma stage_Alloc:
  "run_stages (calibration_stage g Alloc # rest) env (st, w) =
     (let (indio_dev, w1) = ext env Devm_iio_device_alloc w in
      if rnull indio_dev then (- ENOMEM, zeroed_state, w1)
      else run_stages rest env (zeroed_state, w1))"
  by (simp add: Let_def split_def ENOMEM_def)

lemma stage_ClockValidate:
  "run_stages (calibration_stage g ClockValidate # rest) env (st, w) =
     (let (clk, w1) = ext env Devm_clk_get_enabled w in
      if ret clk \<noteq> 0 then (ret clk, st, w1)
      else
        (let (rate, w2) = ext env Clk_get_rate w1;
             st1 = st\<lparr>sample_rate := of_nat (rval rate)\<rparr> in
         if \<not> in_range (sample_rate st1) AD9739A_MIN_DAC_CLK AD9739A_DAC_CLK_RANGE
         then (let (e, w3) = dev_err_probe (- EINVAL) w2 in (e, st1, w3))
         else run_stages rest env (st1, w2)))"
  by (simp add: Let_def split_def EINVAL_def dev_err_probe_def)

lemma stage_RegmapInit:
  "run_stages (calibration_stage g RegmapInit # rest) env (st, w) =
     (let (rm, w1) = ext env Devm_regmap_init_spi w; st2 = st\<lparr>regmap := rval rm\<rparr> in
      if ret rm \<noteq> 0 then (ret rm, st2, w1) else run_stages rest env (st2, w1))"
  by (simp add: Let_def split_def)

lemma stage_Identify:
  "run_stages (calibration_stage g Identify # rest) env (st, w) =
     (let (rc, ident, w1) = regmap_read env AD9739A_REG_ID w in
      if rc \<noteq> 0 then (rc, st, w1)
      else if ident \<noteq> AD9739A_ID
      then (let (e, w2) = dev_err_probe (- ENODEV) w1 in (e, st, w2))
      else run_stages rest env (st, w1))"
  by (simp add: Let_def split_def ENODEV_def dev_err_probe_def)

lemma stage_Reset:
  "run_stages (calibration_stage g Reset # rest) env (st, w) =
     (let (rc, w1) = ad9739a_reset env w in
      if rc \<noteq> 0 then (rc, st, w1) else run_stages rest env (st, w1))"
  by (simp add: Let_def split_def)

lemma stage_init:
  "run_stages (calibration_stage g AnalogConfig # calibration_stage g MuLock #
               calibration_stage g SkewTrim # rest) env (st, w) =
     (let (r, w1) = ad9739a_init env w;
          rc = (case r of Some v \<Rightarrow> v | None \<Rightarrow> g) in
      if rc \<noteq> 0 then (rc, st, w1) else run_stages rest env (st, w1))"
  apply (simp add: Let_def split_def ad9739a_init_def dev_err_probe_def
        lock_loop_rc [of AD9739A_LOCK_N_TRIES] skew_loop_rc [of AD9739A_LOCK_N_TRIES] AD9739A_LOCK_N_TRIES_def
        lock_loop_returned skew_loop_returned
      split: loop_exit.splits)
  done

lemma stage_BackendBind:
  "run_stages (calibration_stage g BackendBind # rest) env (st, w) =
     (let (b, w1) = ext env Devm_iio_backend_get w; st3 = st\<lparr>back_handle := rval b\<rparr> in
      if ret b \<noteq> 0 then (ret b, st3, w1) else run_stages rest env (st3, w1))"
  by (simp add: Let_def split_def)

lemma stage_BufferReady:
  "run_stages (calibration_stage g BufferReady # rest) env (st, w) =
     (let (rb, w1) = ext env Devm_iio_backend_request_buffer w in
      if ret rb \<noteq> 0 then (ret rb, st, w1) else run_stages rest env (st, w1))"
  by (simp add: Let_def split_def)

lemma stage_Register:
  "run_stages [calibration_stage g Register] env (st, w) =
     (let (rr, w1) = ext env Devm_iio_device_register w in (ret rr, st, w1))"
  by (simp add: Let_def split_def)

lemma probe_unfolded:
  "ad9739a_probe env g w =
     run_stages (map (calibration_stage g) code_stage_order) env (zeroed_state, w)"
  unfolding code_stage_order_def ad9739a_probe_def list.map
  by (simp only: stage_Alloc stage_ClockValidate stage_RegmapInit stage_Identify stage_Reset
        stage_init stage_BackendBind stage_BufferReady stage_Register)

subsection \<open>What a stage adds to the trace and keeps of the state\<close>

lemma reset_trace: "\<exists>new. trace (snd (ad9739a_reset env w)) = trace w @ new"
  by (simp add: ad9739a_reset_def Let_def split_def trace_simps)

lemma skew_loop_grows: "\<exists>new. trace (snd (ad9739a_init_skew_loop env n rc w)) = trace w @ new"
  using skew_loop_trace [of n env rc w] by blast

lemma lock_loop_grows: "\<exists>new. trace (snd (ad9739a_init_lock_loop env n rc w)) = trace w @ new"
  using lock_loop_trace [of env n rc w] by blast

lemma stage_trace_grows:
  "\<exists>new. trace (snd (snd (calibration_stage g s env (st, w)))) = trace w @ new"
proof (cases s)
  case Reset
  then show ?thesis using reset_trace [of env w] by (simp add: Let_def split_def)
next
  case MuLock
  then show ?thesis
    using lock_loop_grows [of env AD9739A_LOCK_N_TRIES 0 w]
    by (auto simp: Let_def split_def trace_simps split: loop_exit.splits)
next
  case SkewTrim
  then show ?thesis
    using skew_loop_grows [of env AD9739A_LOCK_N_TRIES 0 w]
    by (auto simp: split_def split: loop_exit.splits)
qed (simp_all add: Let_def split_def trace_simps)

lemma run_stages_trace_grows:
  "\<exists>new. trace (snd (snd (run_stages (map (calibration_stage g) ss) env (st, w)))) = trace w @ new"
proof (induction ss arbitrary: st w)
  case Nil
  then show ?case by simp
next
  case (Cons s ss)
  obtain rc st1 w1 where r: "calibration_stage g s env (st, w) = (rc, st1, w1)"
    by (cases "calibration_stage g s env (st, w)") auto
  obtain n1 where n1: "trace w1 = trace w @ n1"
    using stage_trace_grows [of g s env st w] r by auto
  obtain n2 where "trace (snd (snd (run_stages (map (calibration_stage g) ss) env (st1, w1)))) =
      trace w1 @ n2"
    using Cons.IH by blast
  with r n1 show ?case by simp
qed

lemma stage_keeps_rate:
  "s \<noteq> Alloc \<Longrightarrow> s \<noteq> ClockValidate \<Longrightarrow>
   sample_rate (fst (snd (calibration_stage g s env (st, w)))) = sample_rate st"
  by (cases s) (simp_all add: Let_def split_def split: loop_exit.splits)

lemma run_stages_keeps_rate:
  "Alloc \<notin> set ss \<Longrightarrow> ClockValidate \<notin> set ss \<Longrightarrow>
   sample_rate (fst (snd (run_stages (map (calibration_stage g) ss) env (st, w)))) = sample_rate st"
proof (induction ss arbitrary: st w)
  case Nil
  then show ?case by simp
next
  case (Cons s ss)
  obtain rc st1 w1 where r: "calibration_stage g s env (st, w) = (rc, st1, w1)"
    by (cases "calibration_stage g s env (st, w)") auto
  have "sample_rate st1 = sample_rate st"
    using stage_keeps_rate [of s g env st w] Cons.prems r by auto
  moreover have "sample_rate (fst (snd (run_stages (map (calibration_stage g) ss) env (st1, w1)))) =
      sample_rate st1"
    using Cons.IH Cons.prems by simp
  ultimately show ?case using r by simp
qed

subsection \<open>The stages seen in a trace\<close>

lemma map_filter_append: "List.map_filter f (xs @ ys) = List.map_filter f xs @ List.map_filter f ys"
  by (simp add: List.map_filter_def)

lemma map_filter_Cons_Some: "f x = Some y \<Longrightarrow> List.map_filter f (x # xs) = y # List.map_filter f xs"
  by (simp add: List.map_filter_def)

lemma map_filter_Cons_None: "f x = None \<Longrightarrow> List.map_filter f (x # xs) = List.map_filter f xs"
  by (simp add: List.map_filter_def)

lemma map_filter_Nil: "List.map_filter f [] = []"
  by (simp add: List.map_filter_def)

lemmas mf_simps = map_filter_append map_filter_Cons_Some map_filter_Cons_None map_filter_Nil

lemma remdups_adj_block:
  "xs \<noteq> [] \<Longrightarrow> set xs \<subseteq> {s} \<Longrightarrow> s \<notin> set ys \<Longrightarrow>
   remdups_adj (xs @ ys) = s # remdups_adj ys"
proof (induction xs)
  case Nil
  then show ?case by simp
next
  case (Cons x xs)
  then have x: "x = s" by simp
  show ?case
  proof (cases xs)
    case Nil
    with x Cons.prems show ?thesis by (cases ys) auto
  next
    case (Cons y zs)
    with x Cons.IH Cons.prems show ?thesis by simp
  qed
qed

lemma lock_loop_labels:
  "\<exists>new. trace (snd (ad9739a_init_lock_loop env n rc w)) = trace w @ new \<and>
         set (List.map_filter stage_of_call new) \<subseteq> {MuLock} \<and>
         (0 < n \<longrightarrow> List.map_filter stage_of_call new \<noteq> [])"
proof (induction n arbitrary: rc w)
  case 0
  then show ?case by (simp add: mf_simps)
next
  case (Suc n)
  let ?w1 = "snd (regmap_write env AD9739A_REG_MU_CNT4 AD9739A_MU_CNT4_DEFAULT w)"
  let ?w2 = "snd (regmap_set_bits env AD9739A_REG_MU_CNT1 AD9739A_MU_EN_MASK ?w1)"
  let ?p = "regmap_read_poll_timeout env AD9739A_REG_MU_STAT1 AD9739A_MU_LOCK_MASK 0 1000 ?w2"
  from Suc.IH [of "fst ?p" "snd ?p"] obtain new where
    "trace (snd (ad9739a_init_lock_loop env n (fst ?p) (snd ?p))) = trace (snd ?p) @ new"
    "set (List.map_filter stage_of_call new) \<subseteq> {MuLock}"
    by blast
  then show ?case
    by (simp add: Let_def split_def trace_simps mf_simps mu_cnt1_not_mode)
qed

lemma skew_loop_labels:
  "\<exists>new. trace (snd (ad9739a_init_skew_loop env n rc w)) = trace w @ new \<and>
         set (List.map_filter stage_of_call new) \<subseteq> {SkewTrim} \<and>
         (0 < n \<longrightarrow> List.map_filter stage_of_call new \<noteq> [])"
proof (induction n arbitrary: rc w)
  case 0
  then show ?case by (simp add: mf_simps)
next
  case (Suc n)
  let ?u = "regmap_update_bits env AD9739A_REG_LVDS_REC_CNT4 AD9739A_FINE_DEL_SKW_MASK
              (FIELD_PREP AD9739A_FINE_DEL_SKW_MASK 2) w"
  from Suc.IH [of 0 "snd ?u"] obtain new where
    "trace (snd (ad9739a_init_skew_loop env n 0 (snd ?u))) = trace (snd ?u) @ new"
    "set (List.map_filter stage_of_call new) \<subseteq> {SkewTrim}"
    by blast
  then show ?case
    by (simp add: Let_def split_def trace_simps mf_simps)
qed

lemma reset_labels:
  "\<exists>new. trace (snd (ad9739a_reset env w)) = trace w @ new \<and>
         set (List.map_filter stage_of_call new) \<subseteq> {Reset} \<and>
         List.map_filter stage_of_call new \<noteq> []"
  by (simp add: ad9739a_reset_def Let_def split_def trace_simps mf_simps)

lemma stage_labels:
  "\<exists>new. trace (snd (snd (calibration_stage g s env (st, w)))) = trace w @ new \<and>
         set (List.map_filter stage_of_call new) \<subseteq> {s} \<and>
         List.map_filter stage_of_call new \<noteq> []"
proof (cases s)
  case Reset
  then show ?thesis using reset_labels [of env w] by (simp add: Let_def split_def)
next
  case MuLock
  then show ?thesis
    using lock_loop_labels [of env AD9739A_LOCK_N_TRIES 0 w]
    by (auto simp: Let_def split_def trace_simps mf_simps AD9739A_LOCK_N_TRIES_def
        split: loop_exit.splits)
next
  case SkewTrim
  then show ?thesis
    using skew_loop_labels [of env AD9739A_LOCK_N_TRIES 0 w]
    by (auto simp: Let_def split_def AD9739A_LOCK_N_TRIES_def split: loop_exit.splits)
qed (simp_all add: Let_def split_def trace_simps mf_simps)

lemma run_stages_order:
  "distinct ss \<Longrightarrow>
   \<exists>new k. trace (snd (snd (run_stages (map (calibration_stage g) ss) env (st, w)))) =
             trace w @ new \<and>
           stages_seen new = take k ss \<and>
           (fst (run_stages (map (calibration_stage g) ss) env (st, w)) = 0 \<longrightarrow> k = length ss)"
proof (induction ss arbitrary: st w)
  case Nil
  then show ?case by (simp add: stages_seen_def mf_simps)
next
  case (Cons s ss)
  obtain rc st1 w1 where r: "calibration_stage g s env (st, w) = (rc, st1, w1)"
    by (cases "calibration_stage g s env (st, w)") auto
  obtain n1 where n1: "trace w1 = trace w @ n1"
    "set (List.map_filter stage_of_call n1) \<subseteq> {s}" "List.map_filter stage_of_call n1 \<noteq> []"
    using stage_labels [of g s env st w] r by auto
  have one: "stages_seen n1 = [s]"
    using remdups_adj_block [of "List.map_filter stage_of_call n1" s "[]"] n1
    by (simp add: stages_seen_def)
  show ?case
  proof (cases "rc = 0")
    case False
    with r n1 one show ?thesis
      by (intro exI [of _ n1] exI [of _ 1]) simp
  next
    case True
    from Cons.IH [of st1 w1] Cons.prems obtain n2 k where n2:
      "trace (snd (snd (run_stages (map (calibration_stage g) ss) env (st1, w1)))) = trace w1 @ n2"
      "stages_seen n2 = take k ss"
      "fst (run_stages (map (calibration_stage g) ss) env (st1, w1)) = 0 \<longrightarrow> k = length ss"
      by auto
    have "s \<notin> set (List.map_filter stage_of_call n2)"
    proof
      assume "s \<in> set (List.map_filter stage_of_call n2)"
      then have "s \<in> set (stages_seen n2)" by (simp add: stages_seen_def)
      then have "s \<in> set ss" using n2(2) by (auto dest: in_set_takeD)
      with Cons.prems show False by simp
    qed
    then have "stages_seen (n1 @ n2) = s # stages_seen n2"
      using remdups_adj_block [of "List.map_filter stage_of_call n1" s
          "List.map_filter stage_of_call n2"] n1
      by (simp add: stages_seen_def mf_simps)
    with True r n1 n2 show ?thesis
      by (intro exI [of _ "n1 @ n2"] exI [of _ "Suc k"]) simp
  qed
qed

subsection \<open>The conversion of the cached rate\<close>


subsection \<open>The reset register of the backend\<close>

lemma probe_leaves_reset:
  "fst (axi_dac_probe ver_major reg_version env w) = 0 \<Longrightarrow>
   regs (snd (axi_dac_probe ver_major reg_version env w)) AXI_REG_RSTN = 0"
  by (simp add: axi_dac_probe_def bus_defs Let_def split_def ENOMEM_def ENODEV_def
      split: if_splits)

lemma disable_on_reset:
  "regs w AXI_REG_RSTN = 0 \<Longrightarrow> regs (axi_dac_disable env w) = regs w"
  by (auto simp: axi_dac_disable_def bus_defs Let_def split_def)

lemma disable_accepted:
  "ret (env (trace w) (Regmap_write AXI_REG_RSTN 0)) = 0 \<Longrightarrow>
   regs (axi_dac_disable env w) AXI_REG_RSTN = 0"
  by (simp add: axi_dac_disable_def bus_defs Let_def split_def)

section \<open>The claims\<close>

text \<open>
  C1, as the code has it. The specification orders the stages Identify, Reset,
  ClockValidate; \<^verbatim>\<open>ad9739a_probe\<close> validates the clock before it touches the chip. The
  probe is the run of the stages in the order ClockValidate, Identify, Reset,
  AnalogConfig, MuLock, SkewTrim, BackendBind, BufferReady (with the allocation first,
  the creation of the register map after ClockValidate and the registration last), a
  stage running only if the one before returned 0. On the calls it makes: the stages
  seen are an initial segment of that order, and all of it when the probe returns 0.
  SkewTrim hands over to BackendBind through the value \<open>indet\<close> (see C6).
\<close>

theorem probe_stage_order:
  "ad9739a_probe env indet w =
     run_stages (map (calibration_stage indet) code_stage_order) env (zeroed_state, w) \<and>
   (\<exists>new k. trace (snd (snd (ad9739a_probe env indet w))) = trace w @ new \<and>
            stages_seen new = take k code_stage_order \<and>
            (fst (ad9739a_probe env indet w) = 0 \<longrightarrow> k = length code_stage_order))"
  using run_stages_order [of code_stage_order indet env zeroed_state w]
  by (simp add: probe_unfolded) (simp add: code_stage_order_def)

text \<open>
  The run the specification describes end to end (clock at 2000 MHz, matching ID, soft
  reset, lock at the first poll, every service succeeding): the probe returns 0 and all
  stages are seen, in the order of the code.
\<close>

theorem probe_stage_order_witness:
  "fst (ad9739a_probe (bench 2000000000) 0 world0) = 0 \<and>
   stages_seen (trace (snd (snd (ad9739a_probe (bench 2000000000) 0 world0)))) =
     [Alloc, ClockValidate, RegmapInit, Identify, Reset, AnalogConfig, MuLock, SkewTrim,
      BackendBind, BufferReady, Register]"
proof -
  have ok: "fst (ad9739a_probe (bench 2000000000) 0 world0) = 0"
    unfolding probe_unfolded code_stage_order_def list.map
    by (simp add: ad9739a_reset_def ad9739a_init_def AD9739A_LOCK_N_TRIES_def numeral_3_eq_3
          in_range_clk bus_defs bench_defs Let_def split_def ad9739a_regs)
  show ?thesis
    using probe_stage_order [of "bench 2000000000" 0 world0] ok
    by (auto simp: world0_def code_stage_order_def)
qed

text \<open>
  C1 as the specification states it fails. With a clock of 1 MHz on an otherwise healthy
  board the probe fails in ClockValidate with \<^verbatim>\<open>-EINVAL\<close>, and has neither read the chip
  ID nor reset the chip; in the order of the specification Identify and Reset would have
  run before the clock was looked at.
\<close>

theorem probe_order_counterexample:
  "fst (ad9739a_probe (bench 1000000) 0 world0) = - EINVAL \<and>
   trace (snd (snd (ad9739a_probe (bench 1000000) 0 world0))) =
     [Devm_iio_device_alloc, Devm_clk_get_enabled, Clk_get_rate, Dev_err_probe (- EINVAL)] \<and>
   trace (snd (snd (run_stages (map (calibration_stage 0) spec_stage_order) (bench 1000000)
                      (zeroed_state, world0)))) =
     [Devm_iio_device_alloc, Devm_regmap_init_spi, Regmap_read 0x35,
      Devm_gpiod_get_optional ''reset'' GPIOD_OUT_HIGH, Regmap_set_bits 0 0x20, Ndelay 40,
      Regmap_clear_bits 0 0x20, Devm_clk_get_enabled, Clk_get_rate, Dev_err_probe (- EINVAL)] \<and>
   ad9739a_probe (bench 1000000) 0 world0 \<noteq>
     run_stages (map (calibration_stage 0) spec_stage_order) (bench 1000000) (zeroed_state, world0)"
proof -
  have nr: "\<not> in_range 1000000 AD9739A_MIN_DAC_CLK AD9739A_DAC_CLK_RANGE"
    by (simp add: in_range_clk)
  have code: "ad9739a_probe (bench 1000000) 0 world0 =
      (- EINVAL, zeroed_state\<lparr>sample_rate := 1000000\<rparr>,
       world0\<lparr>trace := [Devm_iio_device_alloc, Devm_clk_get_enabled, Clk_get_rate,
                         Dev_err_probe (- EINVAL)]\<rparr>)"
    unfolding probe_unfolded code_stage_order_def list.map
    by (simp add: stage_Alloc stage_ClockValidate nr bus_defs bench_defs Let_def split_def
          del: run_stages.simps calibration_stage.simps)
  have spec: "trace (snd (snd (run_stages (map (calibration_stage 0) spec_stage_order) (bench 1000000)
                      (zeroed_state, world0)))) =
     [Devm_iio_device_alloc, Devm_regmap_init_spi, Regmap_read 0x35,
      Devm_gpiod_get_optional ''reset'' GPIOD_OUT_HIGH, Regmap_set_bits 0 0x20, Ndelay 40,
      Regmap_clear_bits 0 0x20, Devm_clk_get_enabled, Clk_get_rate, Dev_err_probe (- EINVAL)]"
    unfolding spec_stage_order_def list.map
    by (simp add: stage_Alloc stage_ClockValidate stage_RegmapInit stage_Identify stage_Reset
          reset_bench nr bus_defs bench_defs Let_def split_def ad9739a_regs
          del: run_stages.simps calibration_stage.simps)
  have "trace (snd (snd (ad9739a_probe (bench 1000000) 0 world0))) \<noteq>
      trace (snd (snd (run_stages (map (calibration_stage 0) spec_stage_order) (bench 1000000)
                      (zeroed_state, world0))))"
    unfolding spec code by (simp add: world0_def)
  then have "ad9739a_probe (bench 1000000) 0 world0 \<noteq>
     run_stages (map (calibration_stage 0) spec_stage_order) (bench 1000000) (zeroed_state, world0)"
    by metis
  then show ?thesis using spec unfolding code by (simp add: world0_def)
qed

text \<open>
  C2. The claim asks that the backend's two attribute functions return
  \<^verbatim>\<open>-EINVAL\<close> for every attribute they do not implement and never succeed with 0 as a
  silent no-op. They implement none. For scale, frequency and phase they return 0, touch
  no register and leave the value as it was (the read and the write of the scale below);
  for every other attribute the \<^verbatim>\<open>default\<close> branch beside them returns \<^verbatim>\<open>-EINVAL\<close>.
\<close>

theorem backend_raw_silent_success:
  "adi_axi_dac_ad9739a_read_raw (axi_bench 0 0) 0 7 9 IIO_CHAN_INFO_SCALE world0 =
     ((0, 7, 9), world0) \<and>
   adi_axi_dac_ad9739a_write_raw (axi_bench 0 0) 0 7 9 IIO_CHAN_INFO_SCALE world0 = (0, world0) \<and>
   adi_axi_dac_ad9739a_read_raw env chan val val2 m w =
     ((if m \<in> {IIO_CHAN_INFO_SCALE, IIO_CHAN_INFO_FREQUENCY, IIO_CHAN_INFO_PHASE}
       then 0 else - EINVAL, val, val2), w) \<and>
   adi_axi_dac_ad9739a_write_raw env chan val val2 m w =
     (if m \<in> {IIO_CHAN_INFO_SCALE, IIO_CHAN_INFO_FREQUENCY, IIO_CHAN_INFO_PHASE}
      then 0 else - EINVAL, w)"
  by (cases m)
     (simp_all add: adi_axi_dac_ad9739a_read_raw_def adi_axi_dac_ad9739a_write_raw_def)

text \<open>
  C3, as the code has it. The backend's table (whatever its two attribute functions are)
  has no \<^verbatim>\<open>chan_enable\<close> and no \<^verbatim>\<open>chan_disable\<close>, and
  \<^verbatim>\<open>axi_dac_data_source_set\<close> does not check the channel: for every channel index and
  each of the two sources it makes one field update of the register 0x418 + 0x40 * chan
  (in 32-bit arithmetic) and returns what the bus returns.
  Only a source that is neither the internal tone nor the external one is refused with
  \<^verbatim>\<open>-EINVAL\<close>, and then no register is touched.
\<close>

theorem data_source_set_any_channel:
  "chan_enable (axi_dac_generic rd wr) = None \<and>
   chan_disable (axi_dac_generic rd wr) = None \<and>
   data_source_set (axi_dac_generic rd wr) = Some axi_dac_data_source_set \<and>
   axi_dac_data_source_set env chan IIO_BACKEND_DATA_SOURCE_MAX w = (- EINVAL, w) \<and>
   trace (snd (axi_dac_data_source_set env chan IIO_BACKEND_INTERNAL_CW w)) =
     trace w @ [Regmap_update_bits (0x418 + chan * 0x40) 0xF 0] \<and>
   fst (axi_dac_data_source_set env chan IIO_BACKEND_INTERNAL_CW w) =
     ret (env (trace w) (Regmap_update_bits (0x418 + chan * 0x40) 0xF 0)) \<and>
   trace (snd (axi_dac_data_source_set env chan IIO_BACKEND_EXTERNAL w)) =
     trace w @ [Regmap_update_bits (0x418 + chan * 0x40) 0xF 2] \<and>
   fst (axi_dac_data_source_set env chan IIO_BACKEND_EXTERNAL w) =
     ret (env (trace w) (Regmap_update_bits (0x418 + chan * 0x40) 0xF 2))"
  by (simp add: axi_dac_generic_def axi_dac_data_source_set_def bus_defs Let_def split_def
        sel_mask AXI_REG_CHAN_CNTRL_7_def AXI_DAC_DATA_INTERNAL_TONE_def AXI_DAC_DATA_DMA_def)

text \<open>
  C3 as the specification states it fails. The register block ends at 0x800, so it has
  room for the channels 0 to 15. For the channel 67108864 the offset wraps around to the
  register of channel 0: the call succeeds and writes that register.
\<close>

theorem data_source_set_out_of_range_counterexample:
  "\<not> AXI_REG_CHAN_CNTRL_7 16 \<le> max_register axi_dac_regmap_config \<and>
   AXI_REG_CHAN_CNTRL_7 67108864 = AXI_REG_CHAN_CNTRL_7 0 \<and>
   fst (axi_dac_data_source_set (axi_bench 0 0) 67108864 IIO_BACKEND_EXTERNAL world0) = 0 \<and>
   trace (snd (axi_dac_data_source_set (axi_bench 0 0) 67108864 IIO_BACKEND_EXTERNAL world0)) =
     [Regmap_update_bits 0x418 0xF 2] \<and>
   regs (snd (axi_dac_data_source_set (axi_bench 0 0) 67108864 IIO_BACKEND_EXTERNAL world0)) 0x418 = 2"
  by (simp add: axi_dac_data_source_set_def bus_defs bench_defs Let_def split_def
        sel_mask AXI_REG_CHAN_CNTRL_7_def AXI_DAC_DATA_DMA_def axi_dac_regmap_config_def)




text \<open>
  C5, as the code has it. The specification says the skew trim applies the fine-delay
  skew field twice; the loop bound is \<^verbatim>\<open>AD9739A_LOCK_N_TRIES\<close>, which is 3. On every run
  of \<^verbatim>\<open>ad9739a_init\<close> the calls are the calls made before the skew loop followed by
  \<open>k\<close> copies of the write of the value 2 to the field 0xF of register 0x13, with
  nothing between them (no delay, no poll, no read), and \<open>k\<close> is at most 3. The writes
  are made exactly when the calls before them end in the poll that reported the lock.
  Every write but the last was accepted by the bus. When the bus rejects the last one,
  the function returns its error at once; when it accepts it, the writes are exactly
  three and the function runs to its end.
\<close>

theorem skew_trim_three_writes:
  "\<exists>pre k.
     trace (snd (ad9739a_init env w)) = trace w @ pre @ replicate k (Regmap_update_bits 0x13 0xF 2) \<and>
     Regmap_update_bits 0x13 0xF 2 \<notin> set pre \<and> k \<le> 3 \<and>
     (0 < k) = (pre \<noteq> [] \<and> last pre = Regmap_read_poll_timeout 0x2A 1 0 1000 \<and>
                ret (env (trace w @ butlast pre) (Regmap_read_poll_timeout 0x2A 1 0 1000)) = 0) \<and>
     (\<forall>j. j + 1 < k \<longrightarrow>
        ret (env (trace w @ pre @ replicate j (Regmap_update_bits 0x13 0xF 2))
               (Regmap_update_bits 0x13 0xF 2)) = 0) \<and>
     (0 < k \<longrightarrow>
        fst (ad9739a_init env w) =
          (if ret (env (trace w @ pre @ replicate (k - 1) (Regmap_update_bits 0x13 0xF 2))
                     (Regmap_update_bits 0x13 0xF 2)) \<noteq> 0
           then Some (ret (env (trace w @ pre @ replicate (k - 1) (Regmap_update_bits 0x13 0xF 2))
                            (Regmap_update_bits 0x13 0xF 2)))
           else None) \<and>
        (ret (env (trace w @ pre @ replicate (k - 1) (Regmap_update_bits 0x13 0xF 2))
                (Regmap_update_bits 0x13 0xF 2)) = 0 \<longrightarrow> k = 3)) \<and>
     (fst (ad9739a_init env w) = None \<longrightarrow> k = 3)"
proof -
  let ?c = "Regmap_update_bits 0x13 0xF 2"
  let ?P = "Regmap_read_poll_timeout 0x2A 1 0 1000"
  let ?m = "regmap_multi_reg_write env ad9739a_clk_mu_ctrl w"
  let ?l = "ad9739a_init_lock_loop env AD9739A_LOCK_N_TRIES 0 (snd ?m)"
  let ?s = "ad9739a_init_skew_loop env AD9739A_LOCK_N_TRIES 0 (snd ?l)"
  let ?M = "Regmap_multi_reg_write ad9739a_clk_mu_ctrl"
  have tm: "trace (snd ?m) = trace w @ [?M]"
    by (simp add: trace_simps)
  obtain pre where pre: "trace (snd ?l) = trace (snd ?m) @ pre" "?c \<notin> set pre" "pre \<noteq> []"
    and lk: "case fst ?l of
               Returned r \<Rightarrow> last pre \<noteq> ?P
             | Fell_through r \<Rightarrow> last pre = ?P \<and> ret (env (trace (snd ?m) @ butlast pre) ?P) = r"
    using lock_loop_exact [of env AD9739A_LOCK_N_TRIES 0 "snd ?m"]
    by (auto simp: AD9739A_LOCK_N_TRIES_def)
  have tl: "trace (snd ?l) = trace w @ ?M # pre"
    using pre(1) tm by simp
  have bl: "trace w @ butlast (?M # pre) = trace (snd ?m) @ butlast pre"
    using pre(3) tm by simp
  consider (multi) "fst ?m \<noteq> 0"
    | (ret) r where "fst ?m = 0" "fst ?l = Returned r"
    | (nolock) rc where "fst ?m = 0" "fst ?l = Fell_through rc" "rc \<noteq> 0"
    | (lock) "fst ?m = 0" "fst ?l = Fell_through 0"
    by (cases "fst ?l") auto
  then show ?thesis
  proof cases
    case multi
    then have "trace (snd (ad9739a_init env w)) = trace w @ [?M] @ replicate 0 ?c"
      and "fst (ad9739a_init env w) \<noteq> None"
      by (simp_all add: ad9739a_init_def Let_def split_def trace_simps)
    then show ?thesis by (intro exI [of _ "[?M]"] exI [of _ 0]) simp
  next
    case ret
    then have "trace (snd (ad9739a_init env w)) = trace w @ (?M # pre) @ replicate 0 ?c"
      and "fst (ad9739a_init env w) \<noteq> None"
      using pre by (simp_all add: ad9739a_init_def Let_def split_def trace_simps)
    moreover have "last (?M # pre) \<noteq> ?P"
      using lk ret pre(3) by simp
    ultimately show ?thesis using pre(2) by (intro exI [of _ "?M # pre"] exI [of _ 0]) simp
  next
    case nolock
    then have "trace (snd (ad9739a_init env w)) =
        trace w @ (?M # pre @ [Dev_err_probe rc]) @ replicate 0 ?c"
      and "fst (ad9739a_init env w) \<noteq> None"
      using pre by (simp_all add: ad9739a_init_def Let_def split_def trace_simps)
    then show ?thesis using pre(2)
      by (intro exI [of _ "?M # pre @ [Dev_err_probe rc]"] exI [of _ 0]) simp
  next
    case lock
    obtain k where k: "k \<le> 3" "trace (snd ?s) = trace (snd ?l) @ replicate k ?c" "0 < k"
      "\<forall>j. j + 1 < k \<longrightarrow> ret (env (trace (snd ?l) @ replicate j ?c) ?c) = 0"
      "fst ?s = (if ret (env (trace (snd ?l) @ replicate (k - 1) ?c) ?c) \<noteq> 0
                 then Returned (ret (env (trace (snd ?l) @ replicate (k - 1) ?c) ?c))
                 else Fell_through 0)"
      "ret (env (trace (snd ?l) @ replicate (k - 1) ?c) ?c) = 0 \<longrightarrow> k = 3"
      using skew_loop_exact [of AD9739A_LOCK_N_TRIES env 0 "snd ?l"]
      by (auto simp: AD9739A_LOCK_N_TRIES_def)
    have init: "ad9739a_init env w =
        (case fst ?s of Returned r \<Rightarrow> Some r | Fell_through r \<Rightarrow> None, snd ?s)"
      using lock by (simp add: ad9739a_init_def Let_def split_def split: loop_exit.splits)
    have hist: "\<And>j. trace (snd ?l) @ replicate j ?c = trace w @ (?M # pre) @ replicate j ?c"
      using tl by simp
    have locked: "last (?M # pre) = ?P \<and> ret (env (trace w @ butlast (?M # pre)) ?P) = 0"
      unfolding bl using lk lock pre(3) by simp
    have t: "trace (snd (ad9739a_init env w)) = trace w @ (?M # pre) @ replicate k ?c"
      unfolding init using k(2) hist by simp
    have res: "fst (ad9739a_init env w) =
          (if ret (env (trace w @ (?M # pre) @ replicate (k - 1) ?c) ?c) \<noteq> 0
           then Some (ret (env (trace w @ (?M # pre) @ replicate (k - 1) ?c) ?c))
           else None)"
      unfolding init hist [symmetric] using k(5) by simp
    have full: "ret (env (trace w @ (?M # pre) @ replicate (k - 1) ?c) ?c) = 0 \<longrightarrow> k = 3"
      unfolding hist [symmetric] by (rule k(6))
    have early: "\<forall>j. j + 1 < k \<longrightarrow> ret (env (trace w @ (?M # pre) @ replicate j ?c) ?c) = 0"
      unfolding hist [symmetric] by (rule k(4))
    have none: "fst (ad9739a_init env w) = None \<longrightarrow> k = 3"
      using res full by (simp split: if_splits)
    show ?thesis
      apply (intro exI [of _ "?M # pre"] exI [of _ k] conjI)
            apply (rule t)
           apply (use pre(2) in simp)
          apply (rule k(1))
         apply (use k(3) locked in simp)
        apply (rule early)
       apply (use res full in blast)
      apply (rule none)
      done
  qed
qed

text \<open>
  On the healthy board the function runs to its end, after three writes. On a bus that
  rejects the field update it makes one write and returns the error.
\<close>

theorem skew_trim_three_writes_witness:
  "fst (ad9739a_init (bench 2000000000) world0) = None \<and>
   (\<exists>pre. trace (snd (ad9739a_init (bench 2000000000) world0)) =
            pre @ replicate 3 (Regmap_update_bits 0x13 0xF 2) \<and>
          Regmap_update_bits 0x13 0xF 2 \<notin> set pre) \<and>
   fst (ad9739a_init skew_fault_bench world0) = Some (- EIO) \<and>
   trace (snd (ad9739a_init skew_fault_bench world0)) =
     [Regmap_multi_reg_write ad9739a_clk_mu_ctrl,
      Regmap_write 0x29 0xcb, Regmap_set_bits 0x26 1, Regmap_read_poll_timeout 0x2A 1 0 1000,
      Regmap_update_bits 0x13 0xF 2]"
proof -
  have fault: "fst (ad9739a_init skew_fault_bench world0) = Some (- EIO)"
    "trace (snd (ad9739a_init skew_fault_bench world0)) =
     [Regmap_multi_reg_write ad9739a_clk_mu_ctrl,
      Regmap_write 0x29 0xcb, Regmap_set_bits 0x26 1, Regmap_read_poll_timeout 0x2A 1 0 1000,
      Regmap_update_bits 0x13 0xF 2]"
    by (simp_all add: ad9739a_init_def AD9739A_LOCK_N_TRIES_def numeral_3_eq_3 bus_defs
          skew_fault_bench_def bench_defs EIO_def Let_def split_def skew_value skew_mask
          ad9739a_regs)
  show ?thesis
    using skew_trim_three_writes [of "bench 2000000000" world0] init_bench_result fault
    by (auto simp: world0_def)
qed

text \<open>
  C5 as the specification states it fails: on the healthy board the skew write is made
  three times, not twice.
\<close>

theorem skew_trim_twice_counterexample:
  "count_list (trace (snd (ad9739a_init (bench 2000000000) world0)))
     (Regmap_update_bits 0x13 0xF 2) = 3 \<and>
   count_list (trace (snd (ad9739a_init (bench 2000000000) world0)))
     (Regmap_update_bits 0x13 0xF 2) \<noteq> 2"
  by (simp add: init_bench_trace)

text \<open>
  C6. The claim asks that \<^verbatim>\<open>ad9739a_init\<close> return 0 when every write succeeds and the Mu
  controller locks. On the healthy board the function reaches its closing brace with no
  \<^verbatim>\<open>return\<close> statement, and on no run at all does it return 0: every \<^verbatim>\<open>return\<close> it has
  returns an error.
\<close>

theorem init_missing_return:
  "fst (ad9739a_init (bench 2000000000) world0) = None \<and>
   (\<forall>env w. fst (ad9739a_init env w) \<noteq> Some 0)"
  by (simp add: init_bench_result init_never_zero)

text \<open>
  C7. When the major version the core reports differs from the major version of the
  match entry, \<^verbatim>\<open>axi_dac_probe\<close> fails and never calls \<^verbatim>\<open>devm_iio_backend_register\<close>;
  when nothing else fails, its result is \<^verbatim>\<open>-ENODEV\<close>.
\<close>

theorem version_mismatch_aborts_registration:
  assumes "\<forall>h h'. ver_major (of_nat (rval (env h (Regmap_read reg_version)))) \<noteq>
                   ver_major (of_nat (rval (env h' Device_get_match_data)))"
  shows "fst (axi_dac_probe ver_major reg_version env w) \<noteq> 0 \<and>
         (\<exists>new. trace (snd (axi_dac_probe ver_major reg_version env w)) = trace w @ new \<and>
                Devm_iio_backend_register \<notin> set new) \<and>
         ((\<forall>h c. ret (env h c) = 0 \<and> \<not> rnull (env h c)) \<longrightarrow>
            fst (axi_dac_probe ver_major reg_version env w) = - ENODEV)"
  using assms
  by (simp add: axi_dac_probe_def bus_defs Let_def split_def ENOMEM_def ENODEV_def)

text \<open>
  A core that reports 10.0.a where the match entry expects 9.1.b, with the version
  packed as major, minor, patch from bit 16, bit 8 and bit 0.
\<close>

theorem version_mismatch_aborts_registration_witness:
  "(\<lambda>v. drop_bit 16 v AND 0xff) (655457 :: u32) \<noteq> (\<lambda>v. drop_bit 16 v AND 0xff) (590178 :: u32) \<and>
   fst (axi_dac_probe (\<lambda>v. drop_bit 16 v AND 0xff) 0 (axi_bench 655457 590178) world0) =
     - ENODEV \<and>
   trace (snd (axi_dac_probe (\<lambda>v. drop_bit 16 v AND 0xff) 0 (axi_bench 655457 590178) world0)) =
     [Devm_kzalloc, Device_get_match_data, Devm_clk_get_enabled,
      Devm_platform_ioremap_resource, Devm_regmap_init_mmio,
      Regmap_write 0x40 0, Regmap_read 0, Dev_err]"
  using version_mismatch_aborts_registration
    [of "\<lambda>v. drop_bit 16 v AND 0xff" "axi_bench 655457 590178" 0 world0]
  by (simp add: axi_dac_probe_def bus_defs bench_defs Let_def split_def AXI_REG_RSTN_def)

text \<open>
  C8. When the allocation and the clock succeed and the clock runs at \<open>rate\<close>: for a rate
  from 1600 MHz to 2500 MHz, both included, the probe caches the rate and goes on to
  create the register map; for any other rate it returns \<^verbatim>\<open>-EINVAL\<close> after the
  diagnostic, having called nothing else.
\<close>

theorem clock_range_closed_interval:
  assumes alloc: "\<forall>h. \<not> rnull (env h Devm_iio_device_alloc)"
    and clk: "\<forall>h. ret (env h Devm_clk_get_enabled) = 0"
    and rate: "\<forall>h. of_nat (rval (env h Clk_get_rate)) = rate"
  shows "if AD9739A_MIN_DAC_CLK \<le> rate \<and> rate \<le> AD9739A_MAX_DAC_CLK
         then prefix (trace w @ [Devm_iio_device_alloc, Devm_clk_get_enabled, Clk_get_rate,
                                 Devm_regmap_init_spi])
                (trace (snd (snd (ad9739a_probe env g w)))) \<and>
              sample_rate (fst (snd (ad9739a_probe env g w))) = rate
         else ad9739a_probe env g w =
                (- EINVAL, zeroed_state\<lparr>sample_rate := rate\<rparr>,
                 w\<lparr>trace := trace w @ [Devm_iio_device_alloc, Devm_clk_get_enabled, Clk_get_rate,
                                        Dev_err_probe (- EINVAL)]\<rparr>)"
proof -
  have bounds: "AD9739A_MIN_DAC_CLK = 1600000000" "AD9739A_MAX_DAC_CLK = 2500000000"
    by (simp_all add: AD9739A_MIN_DAC_CLK_def AD9739A_MAX_DAC_CLK_def MEGA_def)
  let ?rest = "map (calibration_stage g) [Identify, Reset, AnalogConfig, MuLock, SkewTrim,
      BackendBind, BufferReady, Register]"
  have range: "in_range rate AD9739A_MIN_DAC_CLK AD9739A_DAC_CLK_RANGE =
      (AD9739A_MIN_DAC_CLK \<le> rate \<and> rate \<le> AD9739A_MAX_DAC_CLK)"
    using in_range_clk [of rate] by (simp add: bounds)
  show ?thesis
  proof (cases "AD9739A_MIN_DAC_CLK \<le> rate \<and> rate \<le> AD9739A_MAX_DAC_CLK")
    case False
    then have "\<not> in_range rate AD9739A_MIN_DAC_CLK AD9739A_DAC_CLK_RANGE"
      using range by simp
    then have "ad9739a_probe env g w =
                (- EINVAL, zeroed_state\<lparr>sample_rate := rate\<rparr>,
                 w\<lparr>trace := trace w @ [Devm_iio_device_alloc, Devm_clk_get_enabled, Clk_get_rate,
                                        Dev_err_probe (- EINVAL)]\<rparr>)"
      using alloc clk rate
      unfolding probe_unfolded code_stage_order_def list.map
      by (simp add: stage_Alloc stage_ClockValidate
            bus_defs Let_def split_def del: run_stages.simps calibration_stage.simps)
    with False show ?thesis by simp
  next
    case True
    then have ir: "in_range rate AD9739A_MIN_DAC_CLK AD9739A_DAC_CLK_RANGE"
      using range by simp
    let ?w3 = "w\<lparr>trace := trace w @ [Devm_iio_device_alloc, Devm_clk_get_enabled, Clk_get_rate,
                                        Devm_regmap_init_spi]\<rparr>"
    let ?rm = "env (trace w @ [Devm_iio_device_alloc, Devm_clk_get_enabled, Clk_get_rate]) Devm_regmap_init_spi"
    let ?st2 = "zeroed_state\<lparr>sample_rate := rate, regmap := rval ?rm\<rparr>"
    have p: "ad9739a_probe env g w =
        (if ret ?rm \<noteq> 0 then (ret ?rm, ?st2, ?w3) else run_stages ?rest env (?st2, ?w3))"
      using ir alloc clk rate
      unfolding probe_unfolded code_stage_order_def list.map
      by (simp add: stage_Alloc stage_ClockValidate stage_RegmapInit
            ext_def emit_def Let_def split_def del: run_stages.simps calibration_stage.simps)
    obtain new where new: "trace (snd (snd (run_stages ?rest env (?st2, ?w3)))) = trace ?w3 @ new"
      using run_stages_trace_grows by blast
    have keep: "sample_rate (fst (snd (run_stages ?rest env (?st2, ?w3)))) = sample_rate ?st2"
      by (rule run_stages_keeps_rate) simp_all
    show ?thesis
      using True new keep by (simp add: p del: run_stages.simps calibration_stage.simps)
  qed
qed

text \<open>The two bounds pass; one hertz below and one hertz above fail.\<close>

theorem clock_range_closed_interval_witness:
  "(prefix [Devm_iio_device_alloc, Devm_clk_get_enabled, Clk_get_rate, Devm_regmap_init_spi]
      (trace (snd (snd (ad9739a_probe (bench 1600000000) 0 world0)))) \<and>
    sample_rate (fst (snd (ad9739a_probe (bench 1600000000) 0 world0))) = 1600000000) \<and>
   (prefix [Devm_iio_device_alloc, Devm_clk_get_enabled, Clk_get_rate, Devm_regmap_init_spi]
      (trace (snd (snd (ad9739a_probe (bench 2500000000) 0 world0)))) \<and>
    sample_rate (fst (snd (ad9739a_probe (bench 2500000000) 0 world0))) = 2500000000) \<and>
   fst (ad9739a_probe (bench 1599999999) 0 world0) = - EINVAL \<and>
   fst (ad9739a_probe (bench 2500000001) 0 world0) = - EINVAL"
  using clock_range_closed_interval [of "bench 1600000000" 1600000000 world0 0]
    clock_range_closed_interval [of "bench 2500000000" 2500000000 world0 0]
    clock_range_closed_interval [of "bench 1599999999" 1599999999 world0 0]
    clock_range_closed_interval [of "bench 2500000001" 2500000001 world0 0]
  by (simp add: bench_defs AD9739A_MIN_DAC_CLK_def AD9739A_MAX_DAC_CLK_def MEGA_def)

text \<open>
  C9. On the soft-reset path (no reset line: \<^verbatim>\<open>devm_gpiod_get_optional\<close> returns a null
  pointer) the calls of \<^verbatim>\<open>ad9739a_reset\<close> are, in this order: the reset bit is set, the
  40 ns delay, the reset bit is cleared. When setting the bit fails, neither the delay
  nor the clearing follows.
\<close>

theorem soft_reset_order:
  assumes "ret (env (trace w) (Devm_gpiod_get_optional ''reset'' GPIOD_OUT_HIGH)) = 0"
    and "rnull (env (trace w) (Devm_gpiod_get_optional ''reset'' GPIOD_OUT_HIGH))"
  shows "trace (snd (ad9739a_reset env w)) =
     trace w @
     (if ret (env (trace w @ [Devm_gpiod_get_optional ''reset'' GPIOD_OUT_HIGH])
               (Regmap_set_bits AD9739A_REG_MODE AD9739A_RESET_MASK)) \<noteq> 0
      then [Devm_gpiod_get_optional ''reset'' GPIOD_OUT_HIGH,
            Regmap_set_bits AD9739A_REG_MODE AD9739A_RESET_MASK]
      else [Devm_gpiod_get_optional ''reset'' GPIOD_OUT_HIGH,
            Regmap_set_bits AD9739A_REG_MODE AD9739A_RESET_MASK,
            Ndelay 40,
            Regmap_clear_bits AD9739A_REG_MODE AD9739A_RESET_MASK])"
  using assms
  by (simp add: ad9739a_reset_def bus_defs Let_def split_def)

text \<open>The healthy board has no reset line and takes the soft-reset path.\<close>

theorem soft_reset_order_witness:
  "ret (bench 2000000000 [] (Devm_gpiod_get_optional ''reset'' GPIOD_OUT_HIGH)) = 0 \<and>
   rnull (bench 2000000000 [] (Devm_gpiod_get_optional ''reset'' GPIOD_OUT_HIGH)) \<and>
   trace (snd (ad9739a_reset (bench 2000000000) world0)) =
     [Devm_gpiod_get_optional ''reset'' GPIOD_OUT_HIGH, Regmap_set_bits 0 0x20, Ndelay 40,
      Regmap_clear_bits 0 0x20]"
  using soft_reset_order [of "bench 2000000000" world0]
  by (simp add: bench_defs ad9739a_regs)

text \<open>
  C10. After a probe that succeeded the reset register holds 0, and \<^verbatim>\<open>axi_dac_disable\<close>
  then leaves every register as it was, whether the bus accepts its write or not; so it
  does on any state in which the reset register holds 0. Its one call is the write of 0
  to the reset register. Once the bus has accepted the write of one
  \<^verbatim>\<open>axi_dac_disable\<close>, a second one changes nothing. The function is \<^verbatim>\<open>void\<close>: it has
  no result that could report a failure.
\<close>

theorem disable_never_enabled_is_noop:
  "(fst (axi_dac_probe ver_major reg_version env w) = 0 \<longrightarrow>
      regs (snd (axi_dac_probe ver_major reg_version env w)) AXI_REG_RSTN = 0 \<and>
      regs (axi_dac_disable env' (snd (axi_dac_probe ver_major reg_version env w))) =
        regs (snd (axi_dac_probe ver_major reg_version env w))) \<and>
   trace (axi_dac_disable env w) = trace w @ [Regmap_write AXI_REG_RSTN 0] \<and>
   (regs w AXI_REG_RSTN = 0 \<longrightarrow> regs (axi_dac_disable env w) = regs w) \<and>
   (ret (env (trace w) (Regmap_write AXI_REG_RSTN 0)) = 0 \<longrightarrow>
      regs (axi_dac_disable env' (axi_dac_disable env w)) = regs (axi_dac_disable env w))"
  using probe_leaves_reset [of ver_major reg_version env w]
    disable_on_reset [of "snd (axi_dac_probe ver_major reg_version env w)" env']
    disable_on_reset [of w env]
    disable_accepted [of env w]
    disable_on_reset [of "axi_dac_disable env w" env']
    trace_regmap_write [of env AXI_REG_RSTN 0 w]
  unfolding axi_dac_disable_def [symmetric]
  by blast

text \<open>A core of the expected version: the probe succeeds, and disabling it changes nothing.\<close>

theorem disable_never_enabled_is_noop_witness:
  "fst (axi_dac_probe (\<lambda>v. drop_bit 16 v AND 0xff) 0 (axi_bench 590178 590178) world0) = 0 \<and>
   regs (snd (axi_dac_probe (\<lambda>v. drop_bit 16 v AND 0xff) 0 (axi_bench 590178 590178) world0))
     AXI_REG_RSTN = 0 \<and>
   regs (axi_dac_disable (axi_bench 590178 590178)
           (snd (axi_dac_probe (\<lambda>v. drop_bit 16 v AND 0xff) 0 (axi_bench 590178 590178) world0))) =
     regs (snd (axi_dac_probe (\<lambda>v. drop_bit 16 v AND 0xff) 0 (axi_bench 590178 590178) world0)) \<and>
   ret (axi_bench 590178 590178 (trace world0) (Regmap_write AXI_REG_RSTN 0)) = 0 \<and>
   regs (axi_dac_disable (axi_bench 590178 590178)
           (axi_dac_disable (axi_bench 590178 590178) world0)) =
     regs (axi_dac_disable (axi_bench 590178 590178) world0)"
proof -
  have ok: "fst (axi_dac_probe (\<lambda>v. drop_bit 16 v AND 0xff) 0 (axi_bench 590178 590178) world0) = 0"
    by (simp add: axi_dac_probe_def bus_defs bench_defs Let_def split_def)
  have acc: "ret (axi_bench 590178 590178 (trace world0) (Regmap_write AXI_REG_RSTN 0)) = 0"
    by (simp add: bench_defs)
  show ?thesis
    using disable_never_enabled_is_noop
      [of "\<lambda>v. drop_bit 16 v AND 0xff" 0 "axi_bench 590178 590178" world0
          "axi_bench 590178 590178"] ok acc
    by blast
qed

end
